theory Spec2Isabelle
  imports Complex_Main "HOL-Library.AList"
begin

text \<open>
  A shallow embedding of the custom rule path registry (\<^verbatim>\<open>lib/CustomRulePathManager.ts\<close>)
  and of the parts of the ESLint engines that the properties below are about
  (\<^verbatim>\<open>EslintStrategyHelper\<close> in \<^verbatim>\<open>lib/eslint/EslintCommons.ts\<close>; \<^verbatim>\<open>matchPath\<close>, \<^verbatim>\<open>run\<close> and
  \<^verbatim>\<open>configureRules\<close> in \<^verbatim>\<open>lib/eslint/BaseEslintEngine.ts\<close>). A method of the manager takes
  the state of the manager and returns its result, or the error it throws, together with
  the new state. An awaited call is a call; logging is left out.
\<close>

section \<open>JavaScript values and containers\<close>

text \<open>
  Strings are lists of 8-bit characters. \<open>endsWith\<close> is \<^verbatim>\<open>String.prototype.endsWith\<close>,
  \<open>trim\<close> is \<^verbatim>\<open>String.prototype.trim\<close> on the white space and line terminators
  that fit into one byte (TAB, LF, VT, FF, CR, SP, NBSP).
\<close>

definition endsWith :: "string \<Rightarrow> string \<Rightarrow> bool" where
  "endsWith s suf \<longleftrightarrow> length suf \<le> length s \<and> drop (length s - length suf) s = suf"

definition isWhiteSpace :: "char \<Rightarrow> bool" where
  "isWhiteSpace c \<longleftrightarrow>
     c \<in> set [CHR 0x09, CHR 0x0A, CHR 0x0B, CHR 0x0C, CHR 0x0D, CHR 0x20, CHR 0xA0]"

definition trim :: "string \<Rightarrow> string" where
  "trim s = rev (dropWhile isWhiteSpace (rev (dropWhile isWhiteSpace s)))"

text \<open>
  The values that \<^verbatim>\<open>JSON.parse\<close> produces and that the untyped
  (\<^verbatim>\<open>any\<close>, \<^verbatim>\<open>LooseObject\<close>) positions of the program hold. An object is the list of its
  own enumerable properties in enumeration order; what a read finds on the prototype of a
  plain object is part of \<open>Get\<close> below. A number is a real number (no NaN, no infinities).
\<close>

datatype jsval =
    JUndefined
  | JNull
  | JBool bool
  | JNum real
  | JStr string
  | JArr "jsval list"
  | JObj "(string \<times> jsval) list"

type_synonym loose_object = "(string \<times> jsval) list"

text \<open>Truthiness, as used by \<^verbatim>\<open>!x\<close> and \<^verbatim>\<open>x || y\<close>.\<close>

fun truthy :: "jsval \<Rightarrow> bool" where
  "truthy JUndefined = False"
| "truthy JNull = False"
| "truthy (JBool b) = b"
| "truthy (JNum r) = (r \<noteq> 0)"
| "truthy (JStr s) = (s \<noteq> [])"
| "truthy (JArr xs) = True"
| "truthy (JObj kvs) = True"

text \<open>The decimal rendering of an array index, which is the property key of an element.\<close>

fun string_of_nat :: "nat \<Rightarrow> string" where
  "string_of_nat n =
     (if n < 10 then [char_of (48 + n)]
      else string_of_nat (n div 10) @ [char_of (48 + n mod 10)])"

declare string_of_nat.simps [simp del]

definition index_props :: "jsval list \<Rightarrow> (string \<times> jsval) list" where
  "index_props xs = zip (map string_of_nat [0..<length xs]) xs"

text \<open>
  The own enumerable properties of a value, in the order of \<^verbatim>\<open>Object.keys\<close> and of the
  spread syntax: the characters of a string and the elements of an array under their
  indices, the properties of an object, nothing for the other primitives.
\<close>

fun own_props :: "jsval \<Rightarrow> (string \<times> jsval) list" where
  "own_props JUndefined = []"
| "own_props JNull = []"
| "own_props (JBool b) = []"
| "own_props (JNum r) = []"
| "own_props (JStr s) = index_props (map (\<lambda>c. JStr [c]) s)"
| "own_props (JArr xs) = index_props xs"
| "own_props (JObj kvs) = kvs"

text \<open>
  \<^verbatim>\<open>Map.prototype.set\<close>, and writing a property of the configuration of a run (the keys
  \<^verbatim>\<open>cwd\<close>, \<^verbatim>\<open>rules\<close>, \<^verbatim>\<open>baseConfig\<close> and \<^verbatim>\<open>env\<close>, and the keys copied from another object):
  an existing key keeps its position, a new key goes to the end. (A plain object
  enumerates keys that are array indices before the others; the configuration of a run
  keeps them where they were set.)
\<close>

definition Map_set :: "string \<Rightarrow> 'v \<Rightarrow> (string \<times> 'v) list \<Rightarrow> (string \<times> 'v) list" where
  "Map_set k v m = AList.update k v m"

text \<open>
  The keys that a plain object enumerates first, in ascending order: the array indices,
  which are the decimal numerals without a leading zero of the numbers below \<open>2^32 - 1\<close>.
\<close>

definition is_digit :: "char \<Rightarrow> bool" where
  "is_digit c \<longleftrightarrow> c \<in> set ''0123456789''"

definition nat_of_digits :: "string \<Rightarrow> nat" where
  "nat_of_digits ds = foldl (\<lambda>n c. 10 * n + (of_char c - 48)) 0 ds"

fun array_index :: "string \<Rightarrow> nat option" where
  "array_index [] = None"
| "array_index (c # cs) =
     (if list_all is_digit (c # cs) \<and> (if c = CHR ''0'' then cs = [] else True) \<and>
         nat_of_digits (c # cs) < 2 ^ 32 - 1
      then Some (nat_of_digits (c # cs)) else None)"

fun insert_index :: "nat \<Rightarrow> string \<Rightarrow> 'v \<Rightarrow> (string \<times> 'v) list \<Rightarrow> (string \<times> 'v) list" where
  "insert_index i k v [] = [(k, v)]"
| "insert_index i k v ((k', v') # rest) =
     (case array_index k' of
        Some j \<Rightarrow>
          if j < i then (k', v') # insert_index i k v rest else (k, v) # (k', v') # rest
      | None \<Rightarrow> (k, v) # (k', v') # rest)"

text \<open>
  \<^verbatim>\<open>obj[key] = value\<close> on a plain object, whose prototype is \<^verbatim>\<open>Object.prototype\<close>. An own
  property takes the value and keeps its position. Without an own property of that
  name, the key \<^verbatim>\<open>__proto__\<close> reaches the setter of the prototype and the object gets no
  own property; an array index goes to its place among the array indices, before the
  other keys; any other key goes to the end.
\<close>

definition Object_set :: "string \<Rightarrow> 'v \<Rightarrow> (string \<times> 'v) list \<Rightarrow> (string \<times> 'v) list" where
  "Object_set k v obj =
     (case map_of obj k of
        Some old \<Rightarrow> AList.update k v obj
      | None \<Rightarrow>
          if k = ''__proto__'' then obj
          else
            (case array_index k of
               Some i \<Rightarrow> insert_index i k v obj
             | None \<Rightarrow> obj @ [(k, v)]))"

section \<open>Errors\<close>

datatype error =
    InvalidFilePath string
  | ReadCustomRulePathFileFailed string
  | WriteCustomRulePathFileFailed string
  | SyntaxError string
  | TypeError string
  | SfdxError string

section \<open>Rule engines\<close>

text \<open>
  \<^verbatim>\<open>RuleEngine\<close> is an interface; \<open>BaseEslintEngine\<close> is the implementation in
  \<^verbatim>\<open>BaseEslintEngine.ts\<close>, built on a strategy whose \<^verbatim>\<open>getEngine()\<close> gives the name.
  \<open>OtherEngine\<close> stands for any other implementation, given by its name and its
  \<^verbatim>\<open>matchPath\<close> predicate.
\<close>

datatype rule_engine =
    BaseEslintEngine string
  | OtherEngine string "string \<Rightarrow> bool"

fun getName :: "rule_engine \<Rightarrow> string" where
  "getName (BaseEslintEngine strategy_engine) = strategy_engine"
| "getName (OtherEngine nm mp) = nm"

fun matchPath :: "rule_engine \<Rightarrow> string \<Rightarrow> bool" where
  "matchPath (BaseEslintEngine strategy_engine) p = False"
| "matchPath (OtherEngine nm mp) p = mp p"

section \<open>The custom rule path manager\<close>

subsection \<open>Environment and state\<close>

text \<open>
  Modelled from the spec: \<^verbatim>\<open>FileHandler\<close> (\<^verbatim>\<open>lib/util/FileHandler\<close>) is not among the
  sources. \<^verbatim>\<open>stats(p)\<close> fails exactly when nothing exists at \<open>p\<close>; an entry is a file, a
  directory with its listing (\<^verbatim>\<open>readDir\<close>), or something that is neither.
\<close>

datatype fs_entry = File | Directory "string list" | OtherEntry

text \<open>
  What the manager is given from outside: the registered engines, the file system that
  the patterns are looked up in, \<^verbatim>\<open>path.resolve\<close>, \<^verbatim>\<open>JSON.parse\<close> (\<open>Inl\<close> carries the
  message of the \<^verbatim>\<open>SyntaxError\<close>), \<^verbatim>\<open>JSON.stringify(_, null, 4)\<close>, and the message of the
  error with which creating the directory or writing the registry file fails, if it does.
\<close>

record environment =
  engines :: "rule_engine list"
  file_system :: "string \<Rightarrow> fs_entry option"
  path_resolve :: "string \<Rightarrow> string \<Rightarrow> string"
  JSON_parse :: "string \<Rightarrow> string + jsval"
  JSON_stringify :: "jsval \<Rightarrow> string"
  write_failure :: "string option"

text \<open>
  A \<^verbatim>\<open>Set\<close> is the list of its elements in insertion order, a \<^verbatim>\<open>Map\<close> with string keys
  the list of its entries in insertion order.
\<close>

type_synonym rule_path_entry = "(string \<times> jsval list) list"
type_synonym rule_path_map = "(string \<times> rule_path_entry) list"

text \<open>
  The state of a manager: its two mutable fields and the registry file, given as what
  \<^verbatim>\<open>fileHandler.readFile\<close> does on it: \<open>Inr\<close> the content, or \<open>Inl\<close> the code and the
  message of the error thrown.
\<close>

record manager =
  pathsByLanguageByEngine :: rule_path_map
  initialized :: bool
  customRulePathFile :: "(string \<times> string) + string"

definition EMPTY_JSON_FILE :: string where
  "EMPTY_JSON_FILE = ''{}''"

subsection \<open>Maps and sets\<close>

text \<open>
  A value used as a key of a \<^verbatim>\<open>Map\<close> whose keys are strings. Keys are compared by
  SameValueZero, so an engine object or \<^verbatim>\<open>undefined\<close> equals none of them.
\<close>

datatype js_key = KString string | KEngine rule_engine | KUndefined

fun Map_has :: "js_key \<Rightarrow> (string \<times> 'v) list \<Rightarrow> bool" where
  "Map_has (KString k) m = (map_of m k \<noteq> None)"
| "Map_has (KEngine e) m = False"
| "Map_has KUndefined m = False"

fun Map_get :: "js_key \<Rightarrow> (string \<times> 'v) list \<Rightarrow> 'v option" where
  "Map_get (KString k) m = map_of m k"
| "Map_get (KEngine e) m = None"
| "Map_get KUndefined m = None"

text \<open>
  Set membership, insertion and deletion. Primitive values are equal when they are the
  same value; an array or object is only equal to itself, and those held by a set come
  from \<^verbatim>\<open>JSON.parse\<close>, which makes a fresh one each time.
\<close>

fun primitive :: "jsval \<Rightarrow> bool" where
  "primitive (JArr xs) = False"
| "primitive (JObj kvs) = False"
| "primitive v = True"

definition Set_has :: "jsval \<Rightarrow> jsval list \<Rightarrow> bool" where
  "Set_has v s \<longleftrightarrow> primitive v \<and> v \<in> set s"

definition Set_add :: "jsval \<Rightarrow> jsval list \<Rightarrow> jsval list" where
  "Set_add v s = (if Set_has v s then s else s @ [v])"

definition Set_delete :: "jsval \<Rightarrow> jsval list \<Rightarrow> bool \<times> jsval list" where
  "Set_delete v s = (if Set_has v s then (True, removeAll v s) else (False, s))"

text \<open>
  \<^verbatim>\<open>new Set(x)\<close>: nothing for \<^verbatim>\<open>null\<close> and \<^verbatim>\<open>undefined\<close>, the characters of a string, the
  elements of an array; the other values are not iterable.
\<close>

fun new_Set :: "jsval \<Rightarrow> error + jsval list" where
  "new_Set JUndefined = Inr []"
| "new_Set JNull = Inr []"
| "new_Set (JStr s) = Inr (fold Set_add (map (\<lambda>c. JStr [c]) s) [])"
| "new_Set (JArr xs) = Inr (fold Set_add xs [])"
| "new_Set v = Inl (TypeError ''object is not iterable'')"

text \<open>\<^verbatim>\<open>Object.keys(x)\<close> with the value under each key; it throws on \<^verbatim>\<open>null\<close> and \<^verbatim>\<open>undefined\<close>.\<close>

fun Object_entries :: "jsval \<Rightarrow> error + (string \<times> jsval) list" where
  "Object_entries JUndefined = Inl (TypeError ''Cannot convert undefined or null to object'')"
| "Object_entries JNull = Inl (TypeError ''Cannot convert undefined or null to object'')"
| "Object_entries v = Inr (own_props v)"

subsection \<open>Reading and writing the registry file\<close>

fun convertLanguages :: "(string \<times> jsval) list \<Rightarrow> rule_path_entry \<Rightarrow> error + rule_path_entry" where
  "convertLanguages [] innerMap = Inr innerMap"
| "convertLanguages ((lang, v) # rest) innerMap =
     (case new_Set v of
        Inl e \<Rightarrow> Inl e
      | Inr s \<Rightarrow> convertLanguages rest (Map_set lang s innerMap))"

fun convertEngines :: "(string \<times> jsval) list \<Rightarrow> rule_path_map \<Rightarrow> error + rule_path_map" where
  "convertEngines [] mp = Inr mp"
| "convertEngines ((key, val) # rest) mp =
     (case Object_entries val of
        Inl e \<Rightarrow> Inl e
      | Inr langs \<Rightarrow>
          (case convertLanguages langs [] of
             Inl e \<Rightarrow> Inl e
           | Inr innerMap \<Rightarrow> convertEngines rest (Map_set key innerMap mp)))"

definition convertJsonDataToMap :: "jsval \<Rightarrow> error + rule_path_map" where
  "convertJsonDataToMap json =
     (case Object_entries json of
        Inl e \<Rightarrow> Inl e
      | Inr entries \<Rightarrow> convertEngines entries [])"

definition convertMapToJson :: "rule_path_map \<Rightarrow> jsval" where
  "convertMapToJson mp =
     JObj (fold (\<lambda>(engine, pathsByLang) json.
                   Object_set engine
                     (JObj (fold (\<lambda>(lang, ps) innerObj. Object_set lang (JArr ps) innerObj)
                              pathsByLang []))
                     json)
             mp [])"

definition initialize :: "environment \<Rightarrow> manager \<Rightarrow> (error + unit) \<times> manager" where
  "initialize env m =
     (if initialized m then (Inr (), m)
      else
        (case (case customRulePathFile m of
                 Inr content \<Rightarrow> Inr content
               | Inl (code, message) \<Rightarrow>
                   if code = ''ENOENT'' then Inr EMPTY_JSON_FILE
                   else Inl (ReadCustomRulePathFileFailed message)) of
           Inl e \<Rightarrow> (Inl e, m)
         | Inr data0 \<Rightarrow>
             (let data = (if [] = trim data0 then EMPTY_JSON_FILE else data0) in
              case JSON_parse env data of
                Inl msg \<Rightarrow> (Inl (SyntaxError msg), m)
              | Inr json \<Rightarrow>
                  (case convertJsonDataToMap json of
                     Inl e \<Rightarrow> (Inl e, m)
                   | Inr mp \<Rightarrow>
                       (Inr (), m\<lparr>pathsByLanguageByEngine := mp, initialized := True\<rparr>)))))"

definition saveCustomClasspaths :: "environment \<Rightarrow> manager \<Rightarrow> (error + unit) \<times> manager" where
  "saveCustomClasspaths env m =
     (case initialize env m of
        (Inl e, m1) \<Rightarrow> (Inl e, m1)
      | (Inr u, m1) \<Rightarrow>
          (let fileContent = JSON_stringify env (convertMapToJson (pathsByLanguageByEngine m1)) in
           case write_failure env of
             Some message \<Rightarrow> (Inl (WriteCustomRulePathFileFailed message), m1)
           | None \<Rightarrow> (Inr (), m1\<lparr>customRulePathFile := Inr fileContent\<rparr>)))"

subsection \<open>Path expansion and engine attribution\<close>

fun expandDirectory :: "(string \<Rightarrow> string) \<Rightarrow> string list \<Rightarrow> string list \<Rightarrow> string list" where
  "expandDirectory resolve [] classpathEntries = classpathEntries"
| "expandDirectory resolve (file # files) classpathEntries =
     (if endsWith file ''.jar''
      then expandDirectory resolve files (classpathEntries @ [resolve file])
      else expandDirectory resolve files classpathEntries)"

fun expandPathsLoop :: "environment \<Rightarrow> string list \<Rightarrow> string list \<Rightarrow> error + string list" where
  "expandPathsLoop env [] classpathEntries = Inr classpathEntries"
| "expandPathsLoop env (p # ps) classpathEntries =
     (case file_system env p of
        None \<Rightarrow> Inl (InvalidFilePath p)
      | Some File \<Rightarrow>
          if endsWith p ''.jar'' then expandPathsLoop env ps (classpathEntries @ [p])
          else expandPathsLoop env ps classpathEntries
      | Some (Directory files) \<Rightarrow>
          expandPathsLoop env ps (expandDirectory (path_resolve env p) files classpathEntries)
      | Some OtherEntry \<Rightarrow> expandPathsLoop env ps classpathEntries)"

definition expandPaths :: "environment \<Rightarrow> string list \<Rightarrow> error + string list" where
  "expandPaths env ps = expandPathsLoop env ps []"

definition determineEngineForPath :: "environment \<Rightarrow> string \<Rightarrow> rule_engine option" where
  "determineEngineForPath env p = List.find (\<lambda>e. matchPath e p) (engines env)"

text \<open>The engine found for a path, as the value that the lookups below pass as a key.\<close>

fun engine_key :: "rule_engine option \<Rightarrow> js_key" where
  "engine_key None = KUndefined"
| "engine_key (Some e) = KEngine e"

text \<open>
  Writing a changed inner map or set back under the key it was read from: the program
  changes the inner object in place.
\<close>

fun Map_put :: "js_key \<Rightarrow> 'v \<Rightarrow> (string \<times> 'v) list \<Rightarrow> (string \<times> 'v) list" where
  "Map_put (KString k) v m = Map_set k v m"
| "Map_put (KEngine e) v m = m"
| "Map_put KUndefined v m = m"

subsection \<open>addPathsForLanguage\<close>

text \<open>
  The body of the \<^verbatim>\<open>forEach\<close>. With no engine for the entry, \<^verbatim>\<open>engine.getName()\<close> is a
  call on \<^verbatim>\<open>undefined\<close> and throws. The two \<open>None\<close> branches after a successful
  \<^verbatim>\<open>has\<close> are never taken.
\<close>

definition addEntry :: "environment \<Rightarrow> string \<Rightarrow> string \<Rightarrow> rule_path_map \<Rightarrow> error + rule_path_map" where
  "addEntry env language entry mp =
     (case determineEngineForPath env entry of
        None \<Rightarrow> Inl (TypeError ''Cannot read properties of undefined (reading getName)'')
      | Some engine \<Rightarrow>
          (let mp1 = (if \<not> Map_has (KString (getName engine)) mp
                      then Map_set (getName engine) [] mp else mp) in
           case Map_get (KString (getName engine)) mp1 of
             None \<Rightarrow> Inl (TypeError ''Cannot read properties of undefined (reading has)'')
           | Some byLang \<Rightarrow>
               if \<not> Map_has (KString language) byLang
               then Inr (Map_set (getName engine) (Map_set language [JStr entry] byLang) mp1)
               else
                 (case Map_get (KString language) byLang of
                    None \<Rightarrow> Inl (TypeError ''Cannot read properties of undefined (reading add)'')
                  | Some s \<Rightarrow>
                      Inr (Map_set (getName engine)
                             (Map_set language (Set_add (JStr entry) s) byLang) mp1))))"

fun addEntries ::
  "environment \<Rightarrow> string \<Rightarrow> string list \<Rightarrow> rule_path_map \<Rightarrow> (error + unit) \<times> rule_path_map" where
  "addEntries env language [] mp = (Inr (), mp)"
| "addEntries env language (entry # rest) mp =
     (case addEntry env language entry mp of
        Inl e \<Rightarrow> (Inl e, mp)
      | Inr mp' \<Rightarrow> addEntries env language rest mp')"

definition addPathsForLanguage ::
  "environment \<Rightarrow> string \<Rightarrow> string list \<Rightarrow> manager \<Rightarrow> (error + string list) \<times> manager" where
  "addPathsForLanguage env language ps m =
     (case initialize env m of
        (Inl e, m1) \<Rightarrow> (Inl e, m1)
      | (Inr u, m1) \<Rightarrow>
          (case expandPaths env ps of
             Inl e \<Rightarrow> (Inl e, m1)
           | Inr classpathEntries \<Rightarrow>
               (case addEntries env language classpathEntries (pathsByLanguageByEngine m1) of
                  (Inl e, mp) \<Rightarrow> (Inl e, m1\<lparr>pathsByLanguageByEngine := mp\<rparr>)
                | (Inr u', mp) \<Rightarrow>
                    (case saveCustomClasspaths env (m1\<lparr>pathsByLanguageByEngine := mp\<rparr>) of
                       (Inl e, m2) \<Rightarrow> (Inl e, m2)
                     | (Inr u'', m2) \<Rightarrow> (Inr classpathEntries, m2)))))"

subsection \<open>getMatchingPaths\<close>

text \<open>
  The predicate of the \<^verbatim>\<open>filter\<close>. The maps are asked with the engine itself, not with
  its name.
\<close>

definition pathIsPresent :: "environment \<Rightarrow> string \<Rightarrow> rule_path_map \<Rightarrow> string \<Rightarrow> bool" where
  "pathIsPresent env language mp p =
     (let e = engine_key (determineEngineForPath env p) in
      if \<not> Map_has e mp then False
      else
        (case Map_get e mp of
           None \<Rightarrow> False
         | Some byLang \<Rightarrow>
             if \<not> Map_has (KString language) byLang then False
             else
               (case Map_get (KString language) byLang of
                  None \<Rightarrow> False
                | Some s \<Rightarrow> Set_has (JStr p) s)))"

definition getMatchingPaths ::
  "environment \<Rightarrow> string \<Rightarrow> string list \<Rightarrow> manager \<Rightarrow> (error + string list) \<times> manager" where
  "getMatchingPaths env language ps m =
     (case initialize env m of
        (Inl e, m1) \<Rightarrow> (Inl e, m1)
      | (Inr u, m1) \<Rightarrow>
          (case expandPaths env ps of
             Inl e \<Rightarrow> (Inl e, m1)
           | Inr expandedPaths \<Rightarrow>
               (Inr (filter (pathIsPresent env language (pathsByLanguageByEngine m1)) expandedPaths),
                m1)))"

subsection \<open>removePathsForLanguage\<close>

definition removeEntry ::
  "environment \<Rightarrow> string \<Rightarrow> string \<Rightarrow> rule_path_map \<times> string list \<Rightarrow> rule_path_map \<times> string list" where
  "removeEntry env language p st =
     (case st of (mp, deletedPaths) \<Rightarrow>
        (let e = engine_key (determineEngineForPath env p) in
         if \<not> Map_has e mp then (mp, deletedPaths)
         else
           (case Map_get e mp of
              None \<Rightarrow> (mp, deletedPaths)
            | Some byLang \<Rightarrow>
                if \<not> Map_has (KString language) byLang then (mp, deletedPaths)
                else
                  (case Map_get (KString language) byLang of
                     None \<Rightarrow> (mp, deletedPaths)
                   | Some s \<Rightarrow>
                       (case Set_delete (JStr p) s of
                          (True, s') \<Rightarrow>
                            (Map_put e (Map_set language s' byLang) mp, deletedPaths @ [p])
                        | (False, s') \<Rightarrow> (mp, deletedPaths))))))"

definition removePathsForLanguage ::
  "environment \<Rightarrow> string \<Rightarrow> string list \<Rightarrow> manager \<Rightarrow> (error + string list) \<times> manager" where
  "removePathsForLanguage env language ps m =
     (case initialize env m of
        (Inl e, m1) \<Rightarrow> (Inl e, m1)
      | (Inr u, m1) \<Rightarrow>
          (case expandPaths env ps of
             Inl e \<Rightarrow> (Inl e, m1)
           | Inr expandedPaths \<Rightarrow>
               (case fold (removeEntry env language) expandedPaths (pathsByLanguageByEngine m1, []) of
                  (mp, deletedPaths) \<Rightarrow>
                    (case saveCustomClasspaths env (m1\<lparr>pathsByLanguageByEngine := mp\<rparr>) of
                       (Inl e, m2) \<Rightarrow> (Inl e, m2)
                     | (Inr u', m2) \<Rightarrow> (Inr deletedPaths, m2)))))"

subsection \<open>getRulePathEntries\<close>

definition getRulePathEntries ::
  "environment \<Rightarrow> string \<Rightarrow> manager \<Rightarrow> (error + rule_path_entry) \<times> manager" where
  "getRulePathEntries env engine m =
     (case initialize env m of
        (Inl e, m1) \<Rightarrow> (Inl e, m1)
      | (Inr u, m1) \<Rightarrow>
          if \<not> Map_has (KString engine) (pathsByLanguageByEngine m1) then (Inr [], m1)
          else
            (case Map_get (KString engine) (pathsByLanguageByEngine m1) of
               None \<Rightarrow> (Inr [], m1)
             | Some entry \<Rightarrow> (Inr entry, m1)))"

subsection \<open>What path expansion is specified to give\<close>

text \<open>
  The contribution of one existing pattern, in the words of the specification: a file is
  kept only with the recognised extension; a directory contributes its listed entries
  with that extension, each resolved against the directory; nothing else contributes.
\<close>

definition expandPattern :: "environment \<Rightarrow> string \<Rightarrow> string list" where
  "expandPattern env p =
     (case file_system env p of
        None \<Rightarrow> []
      | Some File \<Rightarrow> if endsWith p ''.jar'' then [p] else []
      | Some (Directory files) \<Rightarrow>
          map (path_resolve env p) (filter (\<lambda>file. endsWith file ''.jar'') files)
      | Some OtherEntry \<Rightarrow> [])"

section \<open>The ESLint engines\<close>

subsection \<open>Reading and copying properties\<close>

text \<open>
  \<^verbatim>\<open>obj[key]\<close> on a plain object, whose prototype is \<^verbatim>\<open>Object.prototype\<close>: the own
  property when there is one; else, for a name that the prototype defines, the member
  of the prototype (a function, and for \<^verbatim>\<open>__proto__\<close> the prototype itself); else
  \<^verbatim>\<open>undefined\<close>. A member of the prototype is truthy and has no \<^verbatim>\<open>indexOf\<close>.
\<close>

definition Object_prototype_members :: "string list" where
  "Object_prototype_members =
     [''constructor'', ''__defineGetter__'', ''__defineSetter__'', ''hasOwnProperty'',
      ''__lookupGetter__'', ''__lookupSetter__'', ''isPrototypeOf'', ''propertyIsEnumerable'',
      ''toString'', ''valueOf'', ''__proto__'', ''toLocaleString'']"

datatype property = Data jsval | Member string

definition Get :: "loose_object \<Rightarrow> string \<Rightarrow> property" where
  "Get obj k =
     (case map_of obj k of
        Some v \<Rightarrow> Data v
      | None \<Rightarrow> if k \<in> set Object_prototype_members then Member k else Data JUndefined)"

text \<open>
  Copying the own enumerable properties of a value into an object, key by key, as the
  spread syntax \<^verbatim>\<open>{...target, ...src}\<close> and \<^verbatim>\<open>Object.assign(target, src)\<close> do.
\<close>

definition copy_props :: "jsval \<Rightarrow> loose_object \<Rightarrow> loose_object" where
  "copy_props src tgt =
     fold (\<lambda>k t. case map_of (own_props src) k of Some v \<Rightarrow> Map_set k v t | None \<Rightarrow> t)
       (map fst (own_props src)) tgt"

subsection \<open>EslintStrategyHelper\<close>

datatype RuleDefaultStatus = ENABLED | DISABLED

text \<open>
  \<^verbatim>\<open>String.prototype.indexOf\<close> and \<^verbatim>\<open>Array.prototype.indexOf\<close> with a string to look for:
  the first position where the string occurs, respectively where an element is strictly
  equal to it, and -1 when there is none. Other values have no such method.
\<close>

fun string_indexOf :: "string \<Rightarrow> string \<Rightarrow> nat \<Rightarrow> int" where
  "string_indexOf [] pat i = (if pat = [] then int i else - 1)"
| "string_indexOf (c # cs) pat i =
     (if take (length pat) (c # cs) = pat then int i else string_indexOf cs pat (Suc i))"

fun array_indexOf :: "jsval list \<Rightarrow> string \<Rightarrow> nat \<Rightarrow> int" where
  "array_indexOf [] pat i = - 1"
| "array_indexOf (x # xs) pat i = (if x = JStr pat then int i else array_indexOf xs pat (Suc i))"

fun indexOf :: "jsval \<Rightarrow> string \<Rightarrow> error + int" where
  "indexOf (JStr s) pat = Inr (string_indexOf s pat 0)"
| "indexOf (JArr xs) pat = Inr (array_indexOf xs pat 0)"
| "indexOf v pat = Inl (TypeError ''recommendation.indexOf is not a function'')"

text \<open>
  A recommended configuration, as far as the helper reads it: its \<^verbatim>\<open>rules\<close>, a plain
  object from rule names to entries, or none when the configuration has no such property.
\<close>

datatype recommended_config = RecommendedConfig "loose_object option"

definition getDefaultStatus ::
  "recommended_config \<Rightarrow> string \<Rightarrow> error + RuleDefaultStatus option" where
  "getDefaultStatus recommendedConfig ruleName =
     (case recommendedConfig of
        RecommendedConfig None \<Rightarrow> Inl (TypeError ''Cannot read properties of undefined'')
      | RecommendedConfig (Some rules) \<Rightarrow>
          (case Get rules ruleName of
             Member m \<Rightarrow> Inl (TypeError ''recommendation.indexOf is not a function'')
           | Data recommendation \<Rightarrow>
               if \<not> truthy recommendation then Inr None
               else
                 (case indexOf recommendation ''off'' of
                    Inl e \<Rightarrow> Inl e
                  | Inr i \<Rightarrow> Inr (Some (if i = 0 then DISABLED else ENABLED)))))"

definition getDefaultConfig :: "recommended_config \<Rightarrow> string \<Rightarrow> error + jsval" where
  "getDefaultConfig recommendedConfig ruleName =
     (case recommendedConfig of
        RecommendedConfig None \<Rightarrow> Inl (TypeError ''Cannot read properties of undefined'')
      | RecommendedConfig (Some rules) \<Rightarrow>
          (case Get rules ruleName of
             Member m \<Rightarrow> Inl (TypeError ''recommendation.indexOf is not a function'')
           | Data recommendation \<Rightarrow>
               if \<not> truthy recommendation then Inr JNull
               else
                 (case indexOf recommendation ''off'' of
                    Inl e \<Rightarrow> Inl e
                  | Inr i \<Rightarrow> if i = 0 then Inr JNull else Inr recommendation)))"

subsection \<open>BaseEslintEngine.run\<close>

definition DEFAULT_ENV_VARS :: loose_object where
  "DEFAULT_ENV_VARS =
     [(''es6'', JBool True),
      (''node'', JBool True),
      (''browser'', JBool True),
      (''webextensions'', JBool True),
      (''jasmine'', JBool True),
      (''jest'', JBool True),
      (''jquery'', JBool True),
      (''mocha'', JBool True)]"

definition ENV :: string where
  "ENV = ''env''"

definition BASECONFIG :: string where
  "BASECONFIG = ''baseConfig''"

text \<open>The two fields of a \<^verbatim>\<open>Rule\<close> that \<^verbatim>\<open>run\<close> reads.\<close>

record rule =
  name :: string
  defaultConfig :: jsval

record rule_target =
  target :: string
  isDirectory :: bool
  paths :: "string list"

text \<open>
  What \<^verbatim>\<open>run\<close> calls on its strategy and its dependencies. \<open>getRunConfig\<close> and
  \<open>executeOnFiles\<close> (creating the engine for a configuration and running it on the
  paths) give \<open>Inl\<close> the message of what they throw. Reports and results are opaque.
\<close>

record ('report, 'result) eslint_context =
  filterUnsupportedPaths :: "string list \<Rightarrow> string list"
  getRunConfig :: "(string \<times> string) list \<Rightarrow> string + loose_object"
  resolveTargetPath :: "string \<Rightarrow> string"
  getCurrentWorkingDirectory :: string
  executeOnFiles :: "loose_object \<Rightarrow> string list \<Rightarrow> string + 'report"
  addRuleResultsFromReport :: "'result list \<Rightarrow> 'report \<Rightarrow> 'result list"

definition configureRules :: "rule list \<Rightarrow> loose_object" where
  "configureRules rules =
     fold (\<lambda>r configuredRules.
             Object_set (name r)
               (if truthy (defaultConfig r) then defaultConfig r else JStr ''error'')
               configuredRules)
       rules []"

fun error_message :: "error \<Rightarrow> string" where
  "error_message (InvalidFilePath s) = s"
| "error_message (ReadCustomRulePathFileFailed s) = s"
| "error_message (WriteCustomRulePathFileFailed s) = s"
| "error_message (SyntaxError s) = s"
| "error_message (TypeError s) = s"
| "error_message (SfdxError s) = s"

text \<open>
  \<^verbatim>\<open>base[ENV]\<close>: it throws on \<^verbatim>\<open>null\<close> and \<^verbatim>\<open>undefined\<close>, and gives the own property of
  that name when there is one and \<^verbatim>\<open>undefined\<close> otherwise: no prototype of a plain
  object, an array, a string, a number or a boolean has a member named \<^verbatim>\<open>env\<close>.
\<close>

fun getEnv :: "jsval \<Rightarrow> error + jsval" where
  "getEnv JUndefined = Inl (TypeError ''Cannot read properties of undefined'')"
| "getEnv JNull = Inl (TypeError ''Cannot read properties of null'')"
| "getEnv v = Inr (case map_of (own_props v) ENV of Some x \<Rightarrow> x | None \<Rightarrow> JUndefined)"

text \<open>
  \<^verbatim>\<open>base[ENV] = v\<close> in strict mode: an object takes the property, a primitive value
  cannot. An array that takes a named property is given as the object of its own
  enumerable properties.
\<close>

fun setEnv :: "jsval \<Rightarrow> jsval \<Rightarrow> error + jsval" where
  "setEnv (JObj props) v = Inr (JObj (Map_set ENV v props))"
| "setEnv (JArr xs) v = Inr (JObj (Map_set ENV v (index_props xs)))"
| "setEnv b v = Inl (TypeError ''Cannot create property env'')"

text \<open>
  The environment block of \<^verbatim>\<open>run\<close>: the \<^verbatim>\<open>baseConfig\<close> of the configuration, or
  \<^verbatim>\<open>{env: {}}\<close> when there is none, gets as its \<^verbatim>\<open>env\<close> the defaults, overridden by what
  \<^verbatim>\<open>env\<close> it had, overridden by the parsed \<^verbatim>\<open>env\<close> engine option.
\<close>

definition envOverrideOf ::
  "(string \<Rightarrow> string + jsval) \<Rightarrow> (string \<times> string) list \<Rightarrow> error + jsval" where
  "envOverrideOf parse engineOptions =
     (if Map_has (KString ENV) engineOptions
      then (case Map_get (KString ENV) engineOptions of
              None \<Rightarrow> Inr (JObj [])
            | Some optionText \<Rightarrow>
                (case parse optionText of Inl msg \<Rightarrow> Inl (SyntaxError msg) | Inr v \<Rightarrow> Inr v))
      else Inr (JObj []))"

definition baseConfigOf :: "loose_object \<Rightarrow> jsval" where
  "baseConfigOf config =
     (let b = (case map_of config BASECONFIG of Some v \<Rightarrow> v | None \<Rightarrow> JUndefined)
      in if truthy b then b else JObj [(ENV, JObj [])])"

definition configureEnv ::
  "(string \<Rightarrow> string + jsval) \<Rightarrow> (string \<times> string) list \<Rightarrow> loose_object \<Rightarrow> error + loose_object" where
  "configureEnv parse engineOptions config =
     (let config1 = Map_set BASECONFIG (baseConfigOf config) config in
      case envOverrideOf parse engineOptions of
        Inl e \<Rightarrow> Inl e
      | Inr envOverride \<Rightarrow>
          (case getEnv (baseConfigOf config) of
             Inl e \<Rightarrow> Inl e
           | Inr baseEnv \<Rightarrow>
               (case setEnv (baseConfigOf config)
                       (JObj (copy_props envOverride
                                (copy_props baseEnv
                                   (copy_props (JObj DEFAULT_ENV_VARS) [])))) of
                  Inl e \<Rightarrow> Inl e
                | Inr b \<Rightarrow> Inr (Map_set BASECONFIG b config1))))"

text \<open>
  The loop over the targets. The second component lists the calls of the underlying
  engine: the configuration and the paths of each. Whatever is thrown inside the loop
  is thrown again as an \<^verbatim>\<open>SfdxError\<close> with the same message. \<^verbatim>\<open>deepCopy\<close> gives a value
  equal to its argument, and \<^verbatim>\<open>Object.assign\<close> copies the run configuration into the
  configuration that holds \<^verbatim>\<open>cwd\<close> and \<^verbatim>\<open>rules\<close>.
\<close>

fun runTargets ::
  "(string \<Rightarrow> string + jsval) \<Rightarrow> ('report, 'result) eslint_context \<Rightarrow> loose_object \<Rightarrow>
   (string \<times> string) list \<Rightarrow> rule_target list \<Rightarrow> 'result list \<Rightarrow>
   (loose_object \<times> string list) list \<Rightarrow>
   (error + 'result list) \<times> (loose_object \<times> string list) list" where
  "runTargets parse ctx configuredRules engineOptions [] results calls = (Inr results, calls)"
| "runTargets parse ctx configuredRules engineOptions (t # ts) results calls =
     (let cwd = (if isDirectory t then resolveTargetPath ctx (target t)
                 else getCurrentWorkingDirectory ctx);
          config = Map_set ''rules'' (JObj configuredRules) [(''cwd'', JStr cwd)];
          supported = filterUnsupportedPaths ctx (paths t)
      in
        if length supported = 0
        then runTargets parse ctx configuredRules engineOptions ts results calls
        else
          (case getRunConfig ctx engineOptions of
             Inl msg \<Rightarrow> (Inl (SfdxError msg), calls)
           | Inr runConfig \<Rightarrow>
               (case configureEnv parse engineOptions (copy_props (JObj runConfig) config) of
                  Inl e \<Rightarrow> (Inl (SfdxError (error_message e)), calls)
                | Inr config' \<Rightarrow>
                    (case executeOnFiles ctx config' supported of
                       Inl msg \<Rightarrow> (Inl (SfdxError msg), calls @ [(config', supported)])
                     | Inr report \<Rightarrow>
                         runTargets parse ctx configuredRules engineOptions ts
                           (addRuleResultsFromReport ctx results report)
                           (calls @ [(config', supported)])))))"

definition run ::
  "(string \<Rightarrow> string + jsval) \<Rightarrow> ('report, 'result) eslint_context \<Rightarrow> rule list \<Rightarrow>
   rule_target list \<Rightarrow> (string \<times> string) list \<Rightarrow>
   (error + 'result list) \<times> (loose_object \<times> string list) list" where
  "run parse ctx rules targets engineOptions =
     (let configuredRules = configureRules rules in
      if length (map fst configuredRules) = 0 then (Inr [], [])
      else runTargets parse ctx configuredRules engineOptions targets [] [])"

section \<open>Auxiliary notions for the properties\<close>

text \<open>A path is stored in the registry under an engine name and a language.\<close>

definition stored :: "rule_path_map \<Rightarrow> string \<Rightarrow> string \<Rightarrow> string \<Rightarrow> bool" where
  "stored mp engineName language p =
     (case map_of mp engineName of
        None \<Rightarrow> False
      | Some byLang \<Rightarrow>
          (case map_of byLang language of
             None \<Rightarrow> False
           | Some s \<Rightarrow> JStr p \<in> set s))"

text \<open>A path is attributable when some registered engine matches it.\<close>

definition attributable :: "environment \<Rightarrow> string \<Rightarrow> bool" where
  "attributable env p \<longleftrightarrow> determineEngineForPath env p \<noteq> None"

text \<open>
  The registry file is missing (reading it fails with the code \<^verbatim>\<open>ENOENT\<close>) or holds
  nothing but white space.
\<close>

definition fileIsMissingOrBlank :: "manager \<Rightarrow> bool" where
  "fileIsMissingOrBlank m =
     (case customRulePathFile m of
        Inl (code, message) \<Rightarrow> code = ''ENOENT''
      | Inr content \<Rightarrow> trim content = [])"

text \<open>The manager that has been initialised with an empty registry.\<close>

definition emptyRegistry :: "manager \<Rightarrow> manager" where
  "emptyRegistry m = m\<lparr>pathsByLanguageByEngine := [], initialized := True\<rparr>"

text \<open>
  An entry that begins with \<^verbatim>\<open>off\<close> (a string with that prefix or an array with that first
  element), and an entry that is a string or an array.
\<close>

definition beginsWithOff :: "jsval \<Rightarrow> bool" where
  "beginsWithOff v =
     (case v of
        JStr s \<Rightarrow> take 3 s = ''off''
      | JArr xs \<Rightarrow> (case xs of [] \<Rightarrow> False | x # rest \<Rightarrow> x = JStr ''off'')
      | _ \<Rightarrow> False)"

definition stringOrArray :: "jsval \<Rightarrow> bool" where
  "stringOrArray v = (case v of JStr s \<Rightarrow> True | JArr xs \<Rightarrow> True | _ \<Rightarrow> False)"



text \<open>The configuration that one rule asks for.\<close>

definition configOf :: "rule \<Rightarrow> jsval" where
  "configOf r = (if truthy (defaultConfig r) then defaultConfig r else JStr ''error'')"

section \<open>Example inputs\<close>

text \<open>
  A file system with one rule archive, one text file and the directory that holds them
  and a second archive; an ESLint engine and an engine for archives; no registry file.
\<close>

definition example_file_system :: "string \<Rightarrow> fs_entry option" where
  "example_file_system p =
     (if p = ''/r/MyRules.jar'' then Some File
      else if p = ''/r/notes.txt'' then Some File
      else if p = ''/r'' then Some (Directory [''MyRules.jar'', ''notes.txt'', ''Other.jar''])
      else None)"

definition example_parse :: "string \<Rightarrow> string + jsval" where
  "example_parse s =
     (if s = ''{}'' then Inr (JObj [])
      else if s = ''{\"jest\": false, \"mocha\": false}''
      then Inr (JObj [(''jest'', JBool False), (''mocha'', JBool False)])
      else Inl ''Unexpected token'')"

definition example_environment :: environment where
  "example_environment =
     \<lparr>engines = [BaseEslintEngine ''eslint'', OtherEngine ''pmd'' (\<lambda>p. endsWith p ''.jar'')],
      file_system = example_file_system,
      path_resolve = (\<lambda>dir file. dir @ ''/'' @ file),
      JSON_parse = example_parse,
      JSON_stringify = (\<lambda>v. ''registry document''),
      write_failure = None\<rparr>"

definition eslint_only_environment :: environment where
  "eslint_only_environment = example_environment\<lparr>engines := [BaseEslintEngine ''eslint'']\<rparr>"

definition fresh_manager :: manager where
  "fresh_manager =
     \<lparr>pathsByLanguageByEngine = [], initialized = False,
      customRulePathFile = Inl (''ENOENT'', ''no such file or directory'')\<rparr>"

text \<open>The manager after the archive has been added for the language \<open>apex\<close>.\<close>

definition example_registered :: manager where
  "example_registered =
     \<lparr>pathsByLanguageByEngine = [(''pmd'', [(''apex'', [JStr ''/r/MyRules.jar''])])],
      initialized = True,
      customRulePathFile = Inr ''registry document''\<rparr>"

text \<open>
  A recommended configuration, and a run of two rules on one directory with a run
  configuration that brings an environment and with an \<^verbatim>\<open>env\<close> engine option.
\<close>

definition example_recommended :: recommended_config where
  "example_recommended =
     RecommendedConfig
       (Some [(''no-undef'', JStr ''error''),
              (''no-console'', JStr ''off''),
              (''quotes'', JArr [JStr ''off'', JStr ''double''])])"

definition example_run_config :: loose_object where
  "example_run_config =
     [(''baseConfig'',
       JObj [(''env'',
              JObj [(''browser'', JBool False), (''jest'', JBool True),
                    (''worker'', JBool True)])])]"

definition example_context :: "(unit, string) eslint_context" where
  "example_context =
     \<lparr>filterUnsupportedPaths = filter (\<lambda>p. endsWith p ''.js''),
      getRunConfig = (\<lambda>engineOptions. Inr example_run_config),
      resolveTargetPath = (\<lambda>t. t),
      getCurrentWorkingDirectory = ''/home'',
      executeOnFiles = (\<lambda>config ps. Inr ()),
      addRuleResultsFromReport = (\<lambda>results report. results)\<rparr>"

definition example_rules :: "rule list" where
  "example_rules =
     [\<lparr>name = ''no-undef'', defaultConfig = JNull\<rparr>,
      \<lparr>name = ''quotes'', defaultConfig = JArr [JStr ''warn'', JStr ''double'']\<rparr>]"

definition example_targets :: "rule_target list" where
  "example_targets = [\<lparr>target = ''/src'', isDirectory = True, paths = [''/src/a.js'']\<rparr>]"

definition example_options :: "(string \<times> string) list" where
  "example_options = [(''env'', ''{\"jest\": false, \"mocha\": false}'')]"



section \<open>Properties of the containers\<close>

lemma map_of_Map_set: "map_of (Map_set k v m) = (map_of m)(k \<mapsto> v)"
  by (simp add: Map_set_def update_conv')


lemma array_index_no_digit: "\<not> is_digit c \<Longrightarrow> array_index (c # cs) = None"
  by simp

lemma map_of_insert_index:
  "map_of obj k = None \<Longrightarrow> map_of (insert_index i k v obj) = (map_of obj)(k \<mapsto> v)"
proof (induction obj)
  case Nil
  show ?case by simp
next
  case (Cons e obj)
  obtain k' v' where e: "e = (k', v')" by (cases e)
  from Cons.prems e have ne: "k' \<noteq> k" and rest: "map_of obj k = None"
    by (auto split: if_splits)
  from Cons.IH[OF rest] ne show ?case
    by (auto simp: e fun_upd_twist split: option.splits)
qed

lemma map_of_snoc:
  "map_of obj k = None \<Longrightarrow> map_of (obj @ [(k, v)]) = (map_of obj)(k \<mapsto> v)"
  by (induction obj) (auto simp: fun_upd_twist split: if_splits)

lemma map_of_Object_set:
  assumes "k \<noteq> ''__proto__''"
  shows "map_of (Object_set k v obj) = (map_of obj)(k \<mapsto> v)"
proof (cases "map_of obj k")
  case (Some old)
  then show ?thesis by (simp add: Object_set_def update_conv')
next
  case None
  with assms show ?thesis
    by (cases "array_index k")
       (simp_all add: Object_set_def map_of_insert_index map_of_snoc del: map_of_append)
qed

lemma map_of_Object_set_other:
  assumes "n \<noteq> k"
  shows "map_of (Object_set k v obj) n = map_of obj n"
proof (cases "k = ''__proto__'' \<and> map_of obj k = None")
  case True
  then have "k = ''__proto__''" and "map_of obj ''__proto__'' = None" by blast+
  then have "Object_set k v obj = obj" by (simp add: Object_set_def)
  then show ?thesis by simp
next
  case False
  show ?thesis
  proof (cases "map_of obj k")
    case (Some old)
    with assms show ?thesis by (simp add: Object_set_def update_conv')
  next
    case None
    with False have ne: "k \<noteq> ''__proto__''" by simp
    from assms show ?thesis by (simp add: map_of_Object_set[OF ne])
  qed
qed

lemma Object_set_proto:
  "map_of obj ''__proto__'' = None \<Longrightarrow> Object_set ''__proto__'' v obj = obj"
  by (simp add: Object_set_def)

lemma Object_set_same: "map_of obj k = Some v \<Longrightarrow> Object_set k v obj = obj"
  by (simp add: Object_set_def update_triv)

lemma find_Some_holds: "List.find P xs = Some x \<Longrightarrow> P x \<and> x \<in> set xs"
  by (induction xs) (auto split: if_splits)


section \<open>Path expansion\<close>

lemma expandDirectory_eq:
  "expandDirectory r files acc = acc @ map r (filter (\<lambda>file. endsWith file ''.jar'') files)"
  by (induction files arbitrary: acc) auto

lemma expandPathsLoop_error:
  "List.find (\<lambda>q. file_system env q = None) ps = Some p \<Longrightarrow>
   expandPathsLoop env ps acc = Inl (InvalidFilePath p)"
  by (induction ps arbitrary: acc) (auto split: option.splits fs_entry.splits)

lemma expandPathsLoop_ok:
  "List.find (\<lambda>q. file_system env q = None) ps = None \<Longrightarrow>
   expandPathsLoop env ps acc = Inr (acc @ concat (map (expandPattern env) ps))"
  by (induction ps arbitrary: acc)
     (auto simp: expandPattern_def expandDirectory_eq split: option.splits fs_entry.splits if_splits)

text \<open>
  C5. Path expansion fails exactly when some pattern names nothing that exists, and then
  with the invalid-path error that carries the first such pattern. When every pattern
  exists, the result is, pattern by pattern and in order, what the specification says
  each contributes: an existing file with the recognised extension itself, an existing
  file with another extension nothing, and a directory its listed entries with the
  extension, not recursively, each resolved against the directory.
\<close>

theorem expandPaths_spec:
  "((\<exists>e. expandPaths env ps = Inl e) \<longleftrightarrow> (\<exists>p \<in> set ps. file_system env p = None)) \<and>
   (case expandPaths env ps of
      Inl e \<Rightarrow>
        (\<exists>p. e = InvalidFilePath p \<and>
             List.find (\<lambda>q. file_system env q = None) ps = Some p)
    | Inr entries \<Rightarrow>
        (\<forall>p \<in> set ps. file_system env p \<noteq> None) \<and>
        entries = concat (map (expandPattern env) ps))"
proof (cases "List.find (\<lambda>q. file_system env q = None) ps")
  case None
  then have "expandPaths env ps = Inr (concat (map (expandPattern env) ps))"
    by (simp add: expandPaths_def expandPathsLoop_ok)
  with None show ?thesis
    by (auto simp: find_None_iff)
next
  case (Some p)
  then have "expandPaths env ps = Inl (InvalidFilePath p)"
    by (simp add: expandPaths_def expandPathsLoop_error)
  moreover from Some have "p \<in> set ps" "file_system env p = None"
    using find_Some_holds[OF Some] by simp_all
  ultimately show ?thesis using Some by auto
qed

theorem expandPaths_spec_witness:
  "file_system example_environment ''/r/notes.txt'' = Some File \<and>
   expandPaths example_environment [''/r/notes.txt'', ''/r''] =
     Inr [''/r/MyRules.jar'', ''/r/Other.jar''] \<and>
   expandPaths example_environment [''/r'', ''/nowhere'', ''/r/MyRules.jar''] =
     Inl (InvalidFilePath ''/nowhere'')"
  using expandPaths_spec [of example_environment "[''/r/notes.txt'', ''/r'']"]
        expandPaths_spec [of example_environment "[''/r'', ''/nowhere'', ''/r/MyRules.jar'']"]
  by (simp add: example_environment_def example_file_system_def expandPaths_def endsWith_def)

section \<open>Adding paths\<close>

lemma addEntry_unattributable:
  "determineEngineForPath env p = None \<Longrightarrow> \<exists>e. addEntry env l p mp = Inl e"
  by (simp add: addEntry_def)

lemma addEntry_attributable:
  assumes "determineEngineForPath env p = Some e"
  shows "\<exists>mp'. addEntry env l p mp = Inr mp' \<and> stored mp' (getName e) l p \<and>
           (\<forall>n l' q. stored mp n l' q \<longrightarrow> stored mp' n l' q)"
  using assms
  by (auto simp: addEntry_def stored_def map_of_Map_set Let_def Set_add_def Set_has_def
           split: option.splits)







lemma initialize_initialized: "initialized m \<Longrightarrow> initialize env m = (Inr (), m)"
  by (simp add: initialize_def)



section \<open>The example, step by step\<close>

lemma example_environment_fields:
  "engines example_environment =
     [BaseEslintEngine ''eslint'', OtherEngine ''pmd'' (\<lambda>p. endsWith p ''.jar'')]"
  "file_system example_environment = example_file_system"
  "JSON_parse example_environment = example_parse"
  "JSON_stringify example_environment v = ''registry document''"
  "write_failure example_environment = None"
  by (simp_all add: example_environment_def)

lemma eslint_only_environment_fields:
  "engines eslint_only_environment = [BaseEslintEngine ''eslint'']"
  "file_system eslint_only_environment = example_file_system"
  "JSON_parse eslint_only_environment = example_parse"
  by (simp_all add: eslint_only_environment_def example_environment_def)

lemma example_initialize:
  "initialize example_environment fresh_manager = (Inr (), fresh_manager\<lparr>initialized := True\<rparr>)"
  "initialize eslint_only_environment fresh_manager = (Inr (), fresh_manager\<lparr>initialized := True\<rparr>)"
  by (simp_all add: initialize_def example_environment_fields eslint_only_environment_fields
        fresh_manager_def EMPTY_JSON_FILE_def example_parse_def trim_def isWhiteSpace_def
        convertJsonDataToMap_def)

lemma example_initialized:
  "initialize env (fresh_manager\<lparr>initialized := True\<rparr>) = (Inr (), fresh_manager\<lparr>initialized := True\<rparr>)"
  "initialize env example_registered = (Inr (), example_registered)"
  by (simp_all add: initialize_def example_registered_def)

lemma example_expandPaths:
  "expandPaths example_environment [''/r/MyRules.jar''] = Inr [''/r/MyRules.jar'']"
  "expandPaths eslint_only_environment [''/r/MyRules.jar''] = Inr [''/r/MyRules.jar'']"
  by (simp_all add: expandPaths_def example_environment_fields eslint_only_environment_fields
        example_file_system_def endsWith_def)

lemma example_determine:
  "determineEngineForPath example_environment ''/r/MyRules.jar'' =
     Some (OtherEngine ''pmd'' (\<lambda>p. endsWith p ''.jar''))"
  "determineEngineForPath eslint_only_environment ''/r/MyRules.jar'' = None"
  by (simp_all add: determineEngineForPath_def example_environment_fields
        eslint_only_environment_fields endsWith_def)

lemma example_addEntry:
  "addEntry example_environment ''apex'' ''/r/MyRules.jar'' [] =
     Inr [(''pmd'', [(''apex'', [JStr ''/r/MyRules.jar''])])]"
  by (simp add: addEntry_def example_determine Map_set_def)

lemma fresh_manager_fields:
  "pathsByLanguageByEngine fresh_manager = []"
  "initialized fresh_manager = False"
  by (simp_all add: fresh_manager_def)

lemma saveCustomClasspaths_initialized:
  "initialized m \<Longrightarrow> write_failure env = None \<Longrightarrow>
   saveCustomClasspaths env m =
     (Inr (), m\<lparr>customRulePathFile :=
                   Inr (JSON_stringify env (convertMapToJson (pathsByLanguageByEngine m)))\<rparr>)"
  by (simp add: saveCustomClasspaths_def initialize_def)

lemma example_add:
  "addPathsForLanguage example_environment ''apex'' [''/r/MyRules.jar''] fresh_manager =
     (Inr [''/r/MyRules.jar''], example_registered)"
proof -
  have "addPathsForLanguage example_environment ''apex'' [''/r/MyRules.jar''] fresh_manager =
     (Inr [''/r/MyRules.jar''],
      fresh_manager\<lparr>initialized := True,
        pathsByLanguageByEngine := [(''pmd'', [(''apex'', [JStr ''/r/MyRules.jar''])])],
        customRulePathFile := Inr ''registry document''\<rparr>)"
    by (simp add: addPathsForLanguage_def example_initialize example_expandPaths
          example_addEntry fresh_manager_fields saveCustomClasspaths_initialized
          example_environment_fields)
  then show ?thesis by (simp add: fresh_manager_def example_registered_def)
qed

section \<open>Engine attribution\<close>

lemma determine_not_eslint: "determineEngineForPath env p \<noteq> Some (BaseEslintEngine n)"
proof
  assume "determineEngineForPath env p = Some (BaseEslintEngine n)"
  then have "matchPath (BaseEslintEngine n) p"
    unfolding determineEngineForPath_def by (rule find_Some_holds[THEN conjunct1])
  then show False by simp
qed

lemma determine_Some_other:
  assumes "determineEngineForPath env p = Some e"
  shows "\<exists>nm f. e = OtherEngine nm f \<and> f p \<and> OtherEngine nm f \<in> set (engines env)"
proof -
  from assms have "matchPath e p \<and> e \<in> set (engines env)"
    unfolding determineEngineForPath_def by (rule find_Some_holds)
  then show ?thesis by (cases e) auto
qed

lemma addEntry_new_stored:
  assumes "addEntry env l p mp = Inr mp'" "stored mp' k l' q" "\<not> stored mp k l' q"
  shows "\<exists>e. determineEngineForPath env p = Some e \<and> k = getName e \<and> l' = l \<and> q = p"
  using assms
  by (auto simp: addEntry_def stored_def map_of_Map_set Let_def Set_add_def Set_has_def
           split: option.splits if_splits)

lemma addEntries_new_stored:
  "addEntries env l es mp = (r, mp') \<Longrightarrow> stored mp' k l' q \<Longrightarrow> \<not> stored mp k l' q \<Longrightarrow>
   \<exists>e. determineEngineForPath env q = Some e \<and> k = getName e \<and> l' = l \<and> q \<in> set es"
proof (induction es arbitrary: mp)
  case Nil
  then show ?case by simp
next
  case (Cons p es)
  show ?case
  proof (cases "addEntry env l p mp")
    case (Inl e)
    with Cons.prems show ?thesis by simp
  next
    case (Inr mp1)
    with Cons.prems have rest: "addEntries env l es mp1 = (r, mp')" by simp
    show ?thesis
    proof (cases "stored mp1 k l' q")
      case True
      from addEntry_new_stored[OF Inr True Cons.prems(3)] show ?thesis by auto
    next
      case False
      from Cons.IH[OF rest Cons.prems(2) False] show ?thesis by auto
    qed
  qed
qed

lemma addPaths_new_stored:
  assumes new: "stored (pathsByLanguageByEngine (snd (addPathsForLanguage env l ps m))) k l' q"
    and old: "\<not> stored (pathsByLanguageByEngine (snd (initialize env m))) k l' q"
  shows "\<exists>e. determineEngineForPath env q = Some e \<and> k = getName e \<and> l' = l"
proof -
  obtain r m1 where i: "initialize env m = (r, m1)" by (cases "initialize env m")
  show ?thesis
  proof (cases r)
    case (Inl e)
    with i new old show ?thesis by (simp add: addPathsForLanguage_def)
  next
    case (Inr u)
    note r = this
    show ?thesis
    proof (cases "expandPaths env ps")
      case (Inl e)
      with i r new old show ?thesis by (simp add: addPathsForLanguage_def)
    next
      case (Inr es)
      obtain r2 mp where ae: "addEntries env l es (pathsByLanguageByEngine m1) = (r2, mp)"
        by (cases "addEntries env l es (pathsByLanguageByEngine m1)")
      have "pathsByLanguageByEngine (snd (addPathsForLanguage env l ps m)) = mp"
        using i r Inr ae
        by (auto simp: addPathsForLanguage_def saveCustomClasspaths_def initialize_def Let_def
                 split: sum.splits option.splits prod.splits if_splits)
      with new have "stored mp k l' q" by simp
      moreover from old i have "\<not> stored (pathsByLanguageByEngine m1) k l' q" by simp
      ultimately show ?thesis using addEntries_new_stored[OF ae] by blast
    qed
  qed
qed

text \<open>
  C9. \<open>matchPath\<close> of an ESLint engine is false for every path. So no path is attributed
  to an ESLint engine, and whatever is stored in the registry after \<open>addPathsForLanguage\<close>
  that was not in it after initialisation is stored under the name of an engine of
  another kind, the one the path was attributed to.
\<close>

theorem eslint_engine_never_attributed:
  "matchPath (BaseEslintEngine n) p = False \<and>
   determineEngineForPath env p \<noteq> Some (BaseEslintEngine n) \<and>
   (stored (pathsByLanguageByEngine (snd (addPathsForLanguage env l ps m))) k l' q \<longrightarrow>
    \<not> stored (pathsByLanguageByEngine (snd (initialize env m))) k l' q \<longrightarrow>
    (\<exists>nm f. determineEngineForPath env q = Some (OtherEngine nm f) \<and> f q \<and> k = nm))"
proof (intro conjI impI)
  show "matchPath (BaseEslintEngine n) p = False" by simp
  show "determineEngineForPath env p \<noteq> Some (BaseEslintEngine n)" by (rule determine_not_eslint)
next
  assume a: "stored (pathsByLanguageByEngine (snd (addPathsForLanguage env l ps m))) k l' q"
    and b: "\<not> stored (pathsByLanguageByEngine (snd (initialize env m))) k l' q"
  from addPaths_new_stored[OF a b] obtain e where
    e: "determineEngineForPath env q = Some e" "k = getName e" by blast
  from determine_Some_other[OF e(1)] e show
    "\<exists>nm f. determineEngineForPath env q = Some (OtherEngine nm f) \<and> f q \<and> k = nm" by auto
qed

theorem eslint_engine_never_attributed_witness:
  "stored (pathsByLanguageByEngine
             (snd (addPathsForLanguage example_environment ''apex'' [''/r/MyRules.jar'']
                     fresh_manager))) ''pmd'' ''apex'' ''/r/MyRules.jar'' \<and>
   \<not> stored (pathsByLanguageByEngine (snd (initialize example_environment fresh_manager)))
       ''pmd'' ''apex'' ''/r/MyRules.jar'' \<and>
   (\<exists>nm f. determineEngineForPath example_environment ''/r/MyRules.jar'' =
              Some (OtherEngine nm f) \<and> f ''/r/MyRules.jar'' \<and> ''pmd'' = nm)"
  using eslint_engine_never_attributed
          [of "''eslint''" "''/r/MyRules.jar''" example_environment "''apex''"
              "[''/r/MyRules.jar'']" fresh_manager "''pmd''" "''apex''" "''/r/MyRules.jar''"]
  by (simp add: example_add example_initialize)
     (simp add: example_registered_def fresh_manager_def stored_def)

section \<open>Lookup and removal\<close>

lemma pathIsPresent_never: "pathIsPresent env l mp p = False"
  by (cases "determineEngineForPath env p") (simp_all add: pathIsPresent_def)

lemma getMatchingPaths_never_reports:
  "fst (getMatchingPaths env l ps m) = Inr found \<Longrightarrow> found = []"
  by (auto simp: getMatchingPaths_def pathIsPresent_never split: prod.splits sum.splits)

lemma removeEntry_never: "removeEntry env l p st = st"
  by (cases "determineEngineForPath env p"; cases st) (simp_all add: removeEntry_def)

lemma removeEntries_never: "fold (removeEntry env l) ps st = st"
  by (induction ps) (simp_all add: removeEntry_never)

lemma removePathsForLanguage_never_reports:
  "fst (removePathsForLanguage env l ps m) = Inr deleted \<Longrightarrow> deleted = []"
  by (auto simp: removePathsForLanguage_def removeEntries_never split: prod.splits sum.splits)

text \<open>
  C1. On the example: the archive is added for \<open>apex\<close> and is stored under the engine
  \<open>pmd\<close>; \<open>getMatchingPaths\<close> with the same language and pattern then returns the empty
  list, not the archive. The lookup passes the engine object where the registry is
  keyed by the engine's name (\<open>getMatchingPaths_never_reports\<close>: it never returns a
  path).
\<close>

theorem getMatchingPaths_after_add_is_empty:
  "addPathsForLanguage example_environment ''apex'' [''/r/MyRules.jar''] fresh_manager =
     (Inr [''/r/MyRules.jar''], example_registered) \<and>
   stored (pathsByLanguageByEngine example_registered) ''pmd'' ''apex'' ''/r/MyRules.jar'' \<and>
   getMatchingPaths example_environment ''apex'' [''/r/MyRules.jar''] example_registered =
     (Inr [], example_registered)"
  by (simp add: example_add getMatchingPaths_def example_initialized example_expandPaths
        pathIsPresent_def example_determine)
     (simp add: example_registered_def stored_def)

text \<open>
  C2. On the example: the archive is in the registry for \<open>pmd\<close> and \<open>apex\<close>, and
  \<open>removePathsForLanguage\<close> returns the empty list and leaves it there. The lookup has
  the same defect as in \<open>getMatchingPaths\<close> (\<open>removePathsForLanguage_never_reports\<close>).
\<close>

theorem removePaths_after_add_is_empty:
  "addPathsForLanguage example_environment ''apex'' [''/r/MyRules.jar''] fresh_manager =
     (Inr [''/r/MyRules.jar''], example_registered) \<and>
   removePathsForLanguage example_environment ''apex'' [''/r/MyRules.jar''] example_registered =
     (Inr [], example_registered)"
  by (simp add: example_add removePathsForLanguage_def example_initialized example_expandPaths
        removeEntry_def example_determine saveCustomClasspaths_def example_environment_fields)
     (simp add: example_registered_def convertMapToJson_def Object_set_def is_digit_def)

lemma addEntries_some_unattributable:
  "\<not> (\<forall>p \<in> set es. attributable env p) \<Longrightarrow>
   \<exists>msg. fst (addEntries env l es mp) = Inl (TypeError msg)"
proof (induction es arbitrary: mp)
  case Nil
  then show ?case by simp
next
  case (Cons p es)
  show ?case
  proof (cases "determineEngineForPath env p")
    case None
    then show ?thesis by (simp add: addEntry_def)
  next
    case (Some e)
    from addEntry_attributable[OF Some, of l mp] obtain mp' where
      a: "addEntry env l p mp = Inr mp'" by blast
    from Cons.prems Some have "\<not> (\<forall>p \<in> set es. attributable env p)"
      by (simp add: attributable_def)
    from Cons.IH[OF this, of mp'] a show ?thesis by simp
  qed
qed

lemma addPathsForLanguage_unattributable_fails:
  assumes "initialized m" "expandPaths env ps = Inr es" "\<not> (\<forall>p \<in> set es. attributable env p)"
  shows "\<exists>msg. fst (addPathsForLanguage env l ps m) = Inl (TypeError msg)"
proof -
  obtain r mp where ae: "addEntries env l es (pathsByLanguageByEngine m) = (r, mp)"
    by (cases "addEntries env l es (pathsByLanguageByEngine m)")
  with addEntries_some_unattributable[OF assms(3), of l "pathsByLanguageByEngine m"]
  obtain msg where "r = Inl (TypeError msg)" by auto
  with ae assms show ?thesis
    by (simp add: addPathsForLanguage_def initialize_initialized)
qed

text \<open>
  C3. On the example with only an ESLint engine registered: no engine matches the
  archive, and \<open>addPathsForLanguage\<close> ends with the \<^verbatim>\<open>TypeError\<close> of calling
  \<^verbatim>\<open>getName\<close> on \<^verbatim>\<open>undefined\<close>; nothing is written. It is so whenever an expanded
  path is not attributable (\<open>addPathsForLanguage_unattributable_fails\<close>).
\<close>

theorem add_unattributable_throws:
  "determineEngineForPath eslint_only_environment ''/r/MyRules.jar'' = None \<and>
   addPathsForLanguage eslint_only_environment ''apex'' [''/r/MyRules.jar''] fresh_manager =
     (Inl (TypeError ''Cannot read properties of undefined (reading getName)''),
      fresh_manager\<lparr>initialized := True\<rparr>)"
  by (simp add: addPathsForLanguage_def example_initialize example_expandPaths addEntry_def
        example_determine)

section \<open>Initialisation\<close>

lemma convert_empty: "convertJsonDataToMap (JObj []) = Inr []"
  by (simp add: convertJsonDataToMap_def)

lemma initialize_empty:
  assumes "JSON_parse env EMPTY_JSON_FILE = Inr (JObj [])" "\<not> initialized m" "fileIsMissingOrBlank m"
  shows "initialize env m = (Inr (), emptyRegistry m)"
  using assms
  by (auto simp: initialize_def fileIsMissingOrBlank_def emptyRegistry_def convert_empty
           split: sum.splits prod.splits)

lemma initialize_emptyRegistry: "initialize env (emptyRegistry m) = (Inr (), emptyRegistry m)"
  by (simp add: initialize_def emptyRegistry_def)

lemma initialize_read_failure:
  assumes "\<not> initialized m" "customRulePathFile m = Inl (code, message)" "code \<noteq> ''ENOENT''"
  shows "initialize env m = (Inl (ReadCustomRulePathFileFailed message), m)"
  using assms by (simp add: initialize_def)

lemma initialize_malformed:
  assumes "\<not> initialized m" "customRulePathFile m = Inr content" "trim content \<noteq> []"
    "JSON_parse env content = Inl msg"
  shows "initialize env m = (Inl (SyntaxError msg), m)"
  using assms by (auto simp: initialize_def)

lemma ops_initialize_fails:
  assumes "initialize env m = (Inl e, m)"
  shows "addPathsForLanguage env l ps m = (Inl e, m)"
        "getMatchingPaths env l ps m = (Inl e, m)"
        "removePathsForLanguage env l ps m = (Inl e, m)"
        "getRulePathEntries env n m = (Inl e, m)"
  using assms
  by (simp_all add: addPathsForLanguage_def getMatchingPaths_def removePathsForLanguage_def
        getRulePathEntries_def)

lemma ops_same_initialize:
  assumes "initialize env m = initialize env m'"
  shows "addPathsForLanguage env l ps m = addPathsForLanguage env l ps m'"
        "getMatchingPaths env l ps m = getMatchingPaths env l ps m'"
        "removePathsForLanguage env l ps m = removePathsForLanguage env l ps m'"
        "getRulePathEntries env n m = getRulePathEntries env n m'"
  using assms
  by (simp_all add: addPathsForLanguage_def getMatchingPaths_def removePathsForLanguage_def
        getRulePathEntries_def)

lemma addEntries_all_attributable:
  "(\<forall>p \<in> set es. attributable env p) \<Longrightarrow> fst (addEntries env l es mp) = Inr ()"
proof (induction es arbitrary: mp)
  case Nil
  show ?case by simp
next
  case (Cons p es)
  then obtain e where "determineEngineForPath env p = Some e"
    by (auto simp: attributable_def)
  from addEntry_attributable[OF this, of l mp] obtain mp' where
    "addEntry env l p mp = Inr mp'" by blast
  with Cons show ?case by simp
qed

lemma add_succeeds_on_initialized:
  assumes "initialized m" "expandPaths env ps = Inr es" "\<forall>p \<in> set es. attributable env p"
    "write_failure env = None"
  shows "fst (addPathsForLanguage env l ps m) = Inr es"
proof -
  obtain r mp where ae: "addEntries env l es (pathsByLanguageByEngine m) = (r, mp)"
    by (cases "addEntries env l es (pathsByLanguageByEngine m)")
  with addEntries_all_attributable[OF assms(3), of l "pathsByLanguageByEngine m"]
  have "r = Inr ()" by simp
  with ae assms show ?thesis
    by (simp add: addPathsForLanguage_def initialize_initialized saveCustomClasspaths_initialized)
qed

lemma get_succeeds_on_initialized:
  assumes "initialized m" "expandPaths env ps = Inr es"
  shows "getMatchingPaths env l ps m = (Inr [], m)"
  using assms
  by (simp add: getMatchingPaths_def initialize_initialized pathIsPresent_never)

lemma remove_succeeds_on_initialized:
  assumes "initialized m" "expandPaths env ps = Inr es" "write_failure env = None"
  shows "fst (removePathsForLanguage env l ps m) = Inr []"
  using assms
  by (simp add: removePathsForLanguage_def initialize_initialized removeEntries_never
        saveCustomClasspaths_initialized)

text \<open>
  C4. For a manager that is not yet initialised: when the registry file is missing or
  blank (and \<^verbatim>\<open>JSON.parse\<close> reads \<^verbatim>\<open>{}\<close> as the empty object), initialisation succeeds
  with the empty registry, each of the four operations does what it does on the manager
  initialised with an empty registry, and \<open>getRulePathEntries\<close> returns the empty map.
  Where the patterns expand, \<open>getMatchingPaths\<close> returns the empty list, so does
  \<open>removePathsForLanguage\<close> when the file can be written, and \<open>addPathsForLanguage\<close>
  returns the expanded paths when each of them is attributable and the file can be
  written.
  When reading fails with another code, initialisation and the four operations fail
  with the read error that carries the message. When the content is not blank and
  \<^verbatim>\<open>JSON.parse\<close> rejects it, they fail with the parser's error.
\<close>

theorem missing_or_blank_file_is_empty_registry:
  assumes "\<not> initialized m"
  shows
   "(JSON_parse env EMPTY_JSON_FILE = Inr (JObj []) \<longrightarrow> fileIsMissingOrBlank m \<longrightarrow>
       initialize env m = (Inr (), emptyRegistry m) \<and>
       addPathsForLanguage env l ps m = addPathsForLanguage env l ps (emptyRegistry m) \<and>
       getMatchingPaths env l ps m = getMatchingPaths env l ps (emptyRegistry m) \<and>
       removePathsForLanguage env l ps m = removePathsForLanguage env l ps (emptyRegistry m) \<and>
       getRulePathEntries env n m = getRulePathEntries env n (emptyRegistry m) \<and>
       getRulePathEntries env n m = (Inr [], emptyRegistry m) \<and>
       (\<forall>es. expandPaths env ps = Inr es \<longrightarrow>
          getMatchingPaths env l ps m = (Inr [], emptyRegistry m) \<and>
          (write_failure env = None \<longrightarrow> fst (removePathsForLanguage env l ps m) = Inr []) \<and>
          (write_failure env = None \<longrightarrow> (\<forall>p \<in> set es. attributable env p) \<longrightarrow>
             fst (addPathsForLanguage env l ps m) = Inr es))) \<and>
    (\<forall>code message. customRulePathFile m = Inl (code, message) \<longrightarrow> code \<noteq> ''ENOENT'' \<longrightarrow>
       initialize env m = (Inl (ReadCustomRulePathFileFailed message), m) \<and>
       addPathsForLanguage env l ps m = (Inl (ReadCustomRulePathFileFailed message), m) \<and>
       getMatchingPaths env l ps m = (Inl (ReadCustomRulePathFileFailed message), m) \<and>
       removePathsForLanguage env l ps m = (Inl (ReadCustomRulePathFileFailed message), m) \<and>
       getRulePathEntries env n m = (Inl (ReadCustomRulePathFileFailed message), m)) \<and>
    (\<forall>content msg. customRulePathFile m = Inr content \<longrightarrow> trim content \<noteq> [] \<longrightarrow>
       JSON_parse env content = Inl msg \<longrightarrow>
       initialize env m = (Inl (SyntaxError msg), m) \<and>
       addPathsForLanguage env l ps m = (Inl (SyntaxError msg), m) \<and>
       getMatchingPaths env l ps m = (Inl (SyntaxError msg), m) \<and>
       removePathsForLanguage env l ps m = (Inl (SyntaxError msg), m) \<and>
       getRulePathEntries env n m = (Inl (SyntaxError msg), m))"
proof (intro conjI allI impI)
  assume p: "JSON_parse env EMPTY_JSON_FILE = Inr (JObj [])" and f: "fileIsMissingOrBlank m"
  from initialize_empty[OF p assms f] show i: "initialize env m = (Inr (), emptyRegistry m)" .
  then have same: "initialize env m = initialize env (emptyRegistry m)"
    by (simp add: initialize_emptyRegistry)
  from ops_same_initialize[OF same] show
    "addPathsForLanguage env l ps m = addPathsForLanguage env l ps (emptyRegistry m)"
    "getMatchingPaths env l ps m = getMatchingPaths env l ps (emptyRegistry m)"
    "removePathsForLanguage env l ps m = removePathsForLanguage env l ps (emptyRegistry m)"
    "getRulePathEntries env n m = getRulePathEntries env n (emptyRegistry m)"
    by simp_all
  from i show "getRulePathEntries env n m = (Inr [], emptyRegistry m)"
    by (simp add: getRulePathEntries_def emptyRegistry_def)
  have init: "initialized (emptyRegistry m)" by (simp add: emptyRegistry_def)
  note ops = ops_same_initialize[OF same]
  show "getMatchingPaths env l ps m = (Inr [], emptyRegistry m)"
    if "expandPaths env ps = Inr es" for es
    using get_succeeds_on_initialized[OF init that] ops(2) by simp
  show "fst (removePathsForLanguage env l ps m) = Inr []"
    if "expandPaths env ps = Inr es" "write_failure env = None" for es
    using remove_succeeds_on_initialized[OF init that] ops(3) by simp
  show "fst (addPathsForLanguage env l ps m) = Inr es"
    if "expandPaths env ps = Inr es" "write_failure env = None"
       "\<forall>p \<in> set es. attributable env p" for es
    using add_succeeds_on_initialized[OF init that(1) that(3) that(2)] ops(1) by simp
next
  fix code message
  assume "customRulePathFile m = Inl (code, message)" "code \<noteq> ''ENOENT''"
  from initialize_read_failure[OF assms this] show
    i: "initialize env m = (Inl (ReadCustomRulePathFileFailed message), m)" .
  from ops_initialize_fails[OF i] show
    "addPathsForLanguage env l ps m = (Inl (ReadCustomRulePathFileFailed message), m)"
    "getMatchingPaths env l ps m = (Inl (ReadCustomRulePathFileFailed message), m)"
    "removePathsForLanguage env l ps m = (Inl (ReadCustomRulePathFileFailed message), m)"
    "getRulePathEntries env n m = (Inl (ReadCustomRulePathFileFailed message), m)"
    by simp_all
next
  fix content msg
  assume "customRulePathFile m = Inr content" "trim content \<noteq> []" "JSON_parse env content = Inl msg"
  from initialize_malformed[OF assms this] show
    i: "initialize env m = (Inl (SyntaxError msg), m)" .
  from ops_initialize_fails[OF i] show
    "addPathsForLanguage env l ps m = (Inl (SyntaxError msg), m)"
    "getMatchingPaths env l ps m = (Inl (SyntaxError msg), m)"
    "removePathsForLanguage env l ps m = (Inl (SyntaxError msg), m)"
    "getRulePathEntries env n m = (Inl (SyntaxError msg), m)"
    by simp_all
qed

theorem missing_or_blank_file_is_empty_registry_witness:
  "initialize example_environment fresh_manager = (Inr (), emptyRegistry fresh_manager) \<and>
   getRulePathEntries example_environment ''pmd'' fresh_manager =
     (Inr [], emptyRegistry fresh_manager) \<and>
   getMatchingPaths example_environment ''apex'' [''/r/MyRules.jar''] fresh_manager =
     (Inr [], emptyRegistry fresh_manager) \<and>
   fst (addPathsForLanguage example_environment ''apex'' [''/r/MyRules.jar''] fresh_manager) =
     Inr [''/r/MyRules.jar''] \<and>
   getRulePathEntries example_environment ''pmd''
       (fresh_manager\<lparr>customRulePathFile := Inr '' ''\<rparr>) =
     (Inr [], emptyRegistry (fresh_manager\<lparr>customRulePathFile := Inr '' ''\<rparr>)) \<and>
   getRulePathEntries example_environment ''pmd''
       (fresh_manager\<lparr>customRulePathFile := Inl (''EACCES'', ''permission denied'')\<rparr>) =
     (Inl (ReadCustomRulePathFileFailed ''permission denied''),
      fresh_manager\<lparr>customRulePathFile := Inl (''EACCES'', ''permission denied'')\<rparr>) \<and>
   getRulePathEntries example_environment ''pmd''
       (fresh_manager\<lparr>customRulePathFile := Inr ''{''\<rparr>) =
     (Inl (SyntaxError ''Unexpected token''),
      fresh_manager\<lparr>customRulePathFile := Inr ''{''\<rparr>)"
proof -
  let ?blank = "fresh_manager\<lparr>customRulePathFile := Inr '' ''\<rparr>"
  let ?denied = "fresh_manager\<lparr>customRulePathFile := Inl (''EACCES'', ''permission denied'')\<rparr>"
  let ?broken = "fresh_manager\<lparr>customRulePathFile := Inr ''{''\<rparr>"
  have parse: "JSON_parse example_environment EMPTY_JSON_FILE = Inr (JObj [])"
    by (simp add: example_environment_fields example_parse_def EMPTY_JSON_FILE_def)
  have fresh: "\<not> initialized fresh_manager" "\<not> initialized ?blank" "\<not> initialized ?denied"
    "\<not> initialized ?broken"
    by (simp_all add: fresh_manager_def)
  have missing: "fileIsMissingOrBlank fresh_manager"
    by (simp add: fileIsMissingOrBlank_def fresh_manager_def)
  have blank: "fileIsMissingOrBlank ?blank"
    by (simp add: fileIsMissingOrBlank_def trim_def isWhiteSpace_def)
  have denied: "customRulePathFile ?denied = Inl (''EACCES'', ''permission denied'')"
    "''EACCES'' \<noteq> ''ENOENT''"
    by simp_all
  have broken: "customRulePathFile ?broken = Inr ''{''" "trim ''{'' \<noteq> []"
    "JSON_parse example_environment ''{'' = Inl ''Unexpected token''"
    by (simp_all add: trim_def isWhiteSpace_def example_environment_fields example_parse_def)
  note t1 = missing_or_blank_file_is_empty_registry
              [OF fresh(1), of example_environment "''apex''" "[]" "''pmd''"]
  note t2 = missing_or_blank_file_is_empty_registry
              [OF fresh(2), of example_environment "''apex''" "[]" "''pmd''"]
  note t3 = missing_or_blank_file_is_empty_registry
              [OF fresh(3), of example_environment "''apex''" "[]" "''pmd''"]
  note t4 = missing_or_blank_file_is_empty_registry
              [OF fresh(4), of example_environment "''apex''" "[]" "''pmd''"]
  note t5 = missing_or_blank_file_is_empty_registry
              [OF fresh(1), of example_environment "''apex''" "[''/r/MyRules.jar'']" "''pmd''"]
  have expands: "expandPaths example_environment [''/r/MyRules.jar''] = Inr [''/r/MyRules.jar'']"
    by (rule example_expandPaths(1))
  have writes: "write_failure example_environment = None"
    by (rule example_environment_fields(5))
  have attr: "\<forall>p \<in> set [''/r/MyRules.jar'']. attributable example_environment p"
    by (simp add: attributable_def example_determine)
  from t5 parse missing expands writes attr have
    "getMatchingPaths example_environment ''apex'' [''/r/MyRules.jar''] fresh_manager =
       (Inr [], emptyRegistry fresh_manager)"
    "fst (addPathsForLanguage example_environment ''apex'' [''/r/MyRules.jar''] fresh_manager) =
       Inr [''/r/MyRules.jar'']"
    by blast+
  moreover from t1 parse missing have
    "initialize example_environment fresh_manager = (Inr (), emptyRegistry fresh_manager)"
    "getRulePathEntries example_environment ''pmd'' fresh_manager =
       (Inr [], emptyRegistry fresh_manager)"
    by blast+
  moreover from t2 parse blank have
    "getRulePathEntries example_environment ''pmd'' ?blank = (Inr [], emptyRegistry ?blank)"
    by blast
  moreover from t3 denied have
    "getRulePathEntries example_environment ''pmd'' ?denied =
       (Inl (ReadCustomRulePathFileFailed ''permission denied''), ?denied)"
    by blast
  moreover from t4 broken have
    "getRulePathEntries example_environment ''pmd'' ?broken =
       (Inl (SyntaxError ''Unexpected token''), ?broken)"
    by blast
  ultimately show ?thesis by simp
qed

section \<open>Copying properties and the environment of a run\<close>




















section \<open>Default status and default configuration\<close>

lemma string_indexOf_range: "string_indexOf s pat i = - 1 \<or> int i \<le> string_indexOf s pat i"
  by (induction s pat i rule: string_indexOf.induct) auto

lemma string_indexOf_0: "string_indexOf s pat 0 = 0 \<longleftrightarrow> take (length pat) s = pat"
proof (cases s)
  case Nil
  then show ?thesis by auto
next
  case (Cons c cs)
  with string_indexOf_range[of cs pat 1] show ?thesis by auto
qed

lemma array_indexOf_range: "array_indexOf xs pat i = - 1 \<or> int i \<le> array_indexOf xs pat i"
  by (induction xs pat i rule: array_indexOf.induct) auto

lemma array_indexOf_0:
  "array_indexOf xs pat 0 = 0 \<longleftrightarrow> (case xs of [] \<Rightarrow> False | x # rest \<Rightarrow> x = JStr pat)"
proof (cases xs)
  case Nil
  then show ?thesis by simp
next
  case (Cons x rest)
  with array_indexOf_range[of rest pat 1] show ?thesis by auto
qed

lemma indexOf_off:
  "indexOf v ''off'' = (if stringOrArray v then Inr (case v of JStr s \<Rightarrow> string_indexOf s ''off'' 0 | JArr xs \<Rightarrow> array_indexOf xs ''off'' 0 | _ \<Rightarrow> 0) else Inl (TypeError ''recommendation.indexOf is not a function''))"
  by (cases v) (simp_all add: stringOrArray_def)

lemma indexOf_off_0:
  "stringOrArray v \<Longrightarrow> \<exists>i. indexOf v ''off'' = Inr i \<and> (i = 0 \<longleftrightarrow> beginsWithOff v)"
  by (cases v)
     (simp_all add: stringOrArray_def beginsWithOff_def string_indexOf_0 array_indexOf_0
        numeral_3_eq_3)

lemma indexOf_other: "\<not> stringOrArray v \<Longrightarrow> \<exists>e. indexOf v ''off'' = Inl e"
  by (cases v) (simp_all add: stringOrArray_def)

lemma beginsWithOff_stringOrArray: "beginsWithOff v \<Longrightarrow> stringOrArray v"
  by (cases v) (simp_all add: stringOrArray_def beginsWithOff_def)

text \<open>
  A rule with a truthy entry that is a string or an array is disabled when the entry
  begins with \<^verbatim>\<open>off\<close> and enabled otherwise, and its default configuration is
  \<^verbatim>\<open>null\<close> in the first case and the entry in the second.
\<close>

lemma default_status_string_or_array_entry:
  assumes "map_of rules ruleName = Some v" and "stringOrArray v" and "truthy v"
  shows "getDefaultStatus (RecommendedConfig (Some rules)) ruleName =
           Inr (Some (if beginsWithOff v then DISABLED else ENABLED))"
    and "getDefaultConfig (RecommendedConfig (Some rules)) ruleName =
           Inr (if beginsWithOff v then JNull else v)"
proof -
  from indexOf_off_0[OF assms(2)] obtain i where
    i: "indexOf v ''off'' = Inr i" "i = 0 \<longleftrightarrow> beginsWithOff v" by blast
  from assms(1) have g: "Get rules ruleName = Data v" by (simp add: Get_def)
  from g i assms(3) show
    "getDefaultStatus (RecommendedConfig (Some rules)) ruleName =
       Inr (Some (if beginsWithOff v then DISABLED else ENABLED))"
    by (simp add: getDefaultStatus_def)
  from g i assms(3) show
    "getDefaultConfig (RecommendedConfig (Some rules)) ruleName =
       Inr (if beginsWithOff v then JNull else v)"
    by (simp add: getDefaultConfig_def)
qed

text \<open>
  A rule without an entry has the unknown status and no default configuration, unless
  its name is that of a member of \<^verbatim>\<open>Object.prototype\<close>: then the member is read in place
  of an entry, and both functions throw.
\<close>

lemma default_status_absent_rule:
  assumes "map_of rules ruleName = None"
  shows "getDefaultStatus (RecommendedConfig (Some rules)) ruleName =
           (if ruleName \<in> set Object_prototype_members
            then Inl (TypeError ''recommendation.indexOf is not a function'') else Inr None)"
    and "getDefaultConfig (RecommendedConfig (Some rules)) ruleName =
           (if ruleName \<in> set Object_prototype_members
            then Inl (TypeError ''recommendation.indexOf is not a function'') else Inr JNull)"
  using assms by (simp_all add: getDefaultStatus_def getDefaultConfig_def Get_def)

lemma default_status_examples:
  "getDefaultStatus example_recommended ''no-console'' = Inr (Some DISABLED)"
  "getDefaultStatus example_recommended ''quotes'' = Inr (Some DISABLED)"
  "getDefaultStatus example_recommended ''no-undef'' = Inr (Some ENABLED)"
  "getDefaultStatus example_recommended ''semi'' = Inr None"
  "getDefaultConfig example_recommended ''no-console'' = Inr JNull"
  "getDefaultConfig example_recommended ''quotes'' = Inr JNull"
  "getDefaultConfig example_recommended ''no-undef'' = Inr (JStr ''error'')"
  "getDefaultConfig example_recommended ''semi'' = Inr JNull"
  by (simp_all add: example_recommended_def getDefaultStatus_def getDefaultConfig_def Get_def
        Object_prototype_members_def)

text \<open>
  C7. A recommended entry may give the severity as a number: \<open>0\<close> for \<^verbatim>\<open>off\<close>, \<open>1\<close> for
  \<^verbatim>\<open>warn\<close>, \<open>2\<close> for \<^verbatim>\<open>error\<close>. For the entry \<open>2\<close>, which is present and does not begin
  with \<^verbatim>\<open>off\<close>, \<open>getDefaultStatus\<close> does not return \<open>ENABLED\<close> and \<open>getDefaultConfig\<close>
  does not return the entry: a number has no \<^verbatim>\<open>indexOf\<close>, and both throw. For the entry
  \<open>0\<close>, which is present, \<open>getDefaultStatus\<close> returns the unknown status. For the rule
  name \<^verbatim>\<open>constructor\<close>, which has no entry, \<open>getDefaultStatus\<close> does not return the
  unknown status and \<open>getDefaultConfig\<close> does not return \<^verbatim>\<open>null\<close>: both read the member of
  \<^verbatim>\<open>Object.prototype\<close> and throw.
\<close>

theorem default_status_numeric_severity:
  "getDefaultStatus (RecommendedConfig (Some [(''no-undef'', JNum 2)])) ''no-undef'' =
     Inl (TypeError ''recommendation.indexOf is not a function'') \<and>
   getDefaultConfig (RecommendedConfig (Some [(''no-undef'', JNum 2)])) ''no-undef'' =
     Inl (TypeError ''recommendation.indexOf is not a function'') \<and>
   getDefaultStatus (RecommendedConfig (Some [(''no-undef'', JNum 0)])) ''no-undef'' = Inr None \<and>
   getDefaultStatus (RecommendedConfig (Some [(''no-undef'', JStr ''error'')])) ''constructor'' =
     Inl (TypeError ''recommendation.indexOf is not a function'') \<and>
   getDefaultConfig (RecommendedConfig (Some [(''no-undef'', JStr ''error'')])) ''constructor'' =
     Inl (TypeError ''recommendation.indexOf is not a function'')"
  by (simp add: getDefaultStatus_def getDefaultConfig_def Get_def Object_prototype_members_def)

section \<open>Configured rules\<close>

lemma find_append_cases:
  "List.find P (xs @ ys) = (case List.find P xs of None \<Rightarrow> List.find P ys | Some x \<Rightarrow> Some x)"
  by (induction xs) auto

lemma map_of_fold_configure:
  "n \<noteq> ''__proto__'' \<Longrightarrow>
   map_of (fold (\<lambda>r c. Object_set (name r) (configOf r) c) rules acc) n =
     (case List.find (\<lambda>r. name r = n) (rev rules) of
        None \<Rightarrow> map_of acc n
      | Some r \<Rightarrow> Some (configOf r))"
proof (induction rules arbitrary: acc)
  case Nil
  show ?case by simp
next
  case (Cons r rules)
  from Cons.prems show ?case
    by (simp add: Cons.IH map_of_Object_set map_of_Object_set_other find_append_cases
          split: option.splits)
qed

lemma configureRules_alt:
  "configureRules rules = fold (\<lambda>r c. Object_set (name r) (configOf r) c) rules []"
  by (simp add: configureRules_def configOf_def)

lemma map_of_configureRules:
  "n \<noteq> ''__proto__'' \<Longrightarrow>
   map_of (configureRules rules) n =
     (case List.find (\<lambda>r. name r = n) (rev rules) of
        None \<Rightarrow> None
      | Some r \<Rightarrow> Some (configOf r))"
  unfolding configureRules_alt by (simp add: map_of_fold_configure split: option.splits)

text \<open>
  A rule named \<^verbatim>\<open>__proto__\<close> is never configured: the assignment reaches the setter of
  \<^verbatim>\<open>Object.prototype\<close>. A list of such rules gives the empty object, and \<open>run\<close> returns
  without a call of the underlying engine.
\<close>

lemma fold_configure_proto:
  "map_of acc ''__proto__'' = None \<Longrightarrow>
   map_of (fold (\<lambda>r c. Object_set (name r) (configOf r) c) rules acc) ''__proto__'' = None"
proof (induction rules arbitrary: acc)
  case Nil
  then show ?case by simp
next
  case (Cons r rules)
  have "map_of (Object_set (name r) (configOf r) acc) ''__proto__'' = None"
  proof (cases "name r = ''__proto__''")
    case True
    with Cons.prems show ?thesis by (simp add: Object_set_proto)
  next
    case False
    with Cons.prems show ?thesis by (simp add: map_of_Object_set_other)
  qed
  from Cons.IH[OF this] show ?case by simp
qed

lemma configureRules_proto: "map_of (configureRules rules) ''__proto__'' = None"
  unfolding configureRules_alt by (rule fold_configure_proto) simp

lemma configureRules_only_proto:
  "configureRules [\<lparr>name = ''__proto__'', defaultConfig = JStr ''warn''\<rparr>] = []"
  "run parse ctx [\<lparr>name = ''__proto__'', defaultConfig = JStr ''warn''\<rparr>] targets engineOptions =
     (Inr [], [])"
  by (simp_all add: run_def configureRules_def Object_set_def)

text \<open>
  A \<^verbatim>\<open>defaultConfig\<close> that is falsy without being \<^verbatim>\<open>null\<close> or \<^verbatim>\<open>undefined\<close> (the number \<open>0\<close>,
  the empty string, \<^verbatim>\<open>false\<close>) is not used either.
\<close>

lemma configureRules_falsy_defaultConfig:
  "configureRules [\<lparr>name = ''no-undef'', defaultConfig = JNum 0\<rparr>] =
     [(''no-undef'', JStr ''error'')]"
  by (simp add: configureRules_def Object_set_def is_digit_def)

lemma find_last_distinct:
  "distinct (map name rules) \<Longrightarrow> r \<in> set rules \<Longrightarrow>
   List.find (\<lambda>x. name x = name r) (rev rules) = Some r"
proof (induction rules)
  case Nil
  then show ?case by simp
next
  case (Cons a rules)
  show ?case
  proof (cases "r \<in> set rules")
    case True
    with Cons have "List.find (\<lambda>x. name x = name r) (rev rules) = Some r" by simp
    then show ?thesis by (simp add: find_append_cases)
  next
    case False
    with Cons.prems have ra: "r = a" and fresh: "name a \<notin> name ` set rules" by auto
    have "List.find (\<lambda>x. name x = name a) (rev rules) = None"
      using fresh by (auto simp: find_None_iff image_iff)
    with ra show ?thesis by (simp add: find_append_cases)
  qed
qed

text \<open>
  C10, as amended. An empty list of rules gives an empty object of configured rules, and
  with an empty object \<open>run\<close> returns the empty list of results and calls the underlying
  engine on no target. Every rule name other than \<^verbatim>\<open>__proto__\<close> is configured by the last
  rule of the list that bears it, and not at all when no rule bears it: at the
  \<^verbatim>\<open>defaultConfig\<close> of that rule when it has one, a truthy value, and at \<^verbatim>\<open>error\<close> when it
  has none, that is \<^verbatim>\<open>null\<close> or \<^verbatim>\<open>undefined\<close>. So when no two rules share a name, each
  rule not named \<^verbatim>\<open>__proto__\<close> is configured at its own.
\<close>

theorem configureRules_and_run:
  "(rules = [] \<longrightarrow> configureRules rules = []) \<and>
   (configureRules rules = [] \<longrightarrow> run parse ctx rules targets engineOptions = (Inr [], [])) \<and>
   (n \<noteq> ''__proto__'' \<longrightarrow>
      (List.find (\<lambda>r. name r = n) (rev rules) = None \<longrightarrow>
         map_of (configureRules rules) n = None) \<and>
      (\<forall>r. List.find (\<lambda>r. name r = n) (rev rules) = Some r \<longrightarrow>
         (truthy (defaultConfig r) \<longrightarrow>
            map_of (configureRules rules) n = Some (defaultConfig r)) \<and>
         (defaultConfig r = JNull \<or> defaultConfig r = JUndefined \<longrightarrow>
            map_of (configureRules rules) n = Some (JStr ''error'')))) \<and>
   (distinct (map name rules) \<longrightarrow>
      (\<forall>r \<in> set rules. name r \<noteq> ''__proto__'' \<longrightarrow>
         (truthy (defaultConfig r) \<longrightarrow>
            map_of (configureRules rules) (name r) = Some (defaultConfig r)) \<and>
         (defaultConfig r = JNull \<or> defaultConfig r = JUndefined \<longrightarrow>
            map_of (configureRules rules) (name r) = Some (JStr ''error''))))"
proof -
  have empty: "rules = [] \<longrightarrow> configureRules rules = []"
    by (simp add: configureRules_def)
  have no_call: "configureRules rules = [] \<longrightarrow>
      run parse ctx rules targets engineOptions = (Inr [], [])"
    by (simp add: run_def)
  have last_rule: "n \<noteq> ''__proto__'' \<longrightarrow>
      (List.find (\<lambda>r. name r = n) (rev rules) = None \<longrightarrow>
         map_of (configureRules rules) n = None) \<and>
      (\<forall>r. List.find (\<lambda>r. name r = n) (rev rules) = Some r \<longrightarrow>
         (truthy (defaultConfig r) \<longrightarrow>
            map_of (configureRules rules) n = Some (defaultConfig r)) \<and>
         (defaultConfig r = JNull \<or> defaultConfig r = JUndefined \<longrightarrow>
            map_of (configureRules rules) n = Some (JStr ''error'')))"
    by (auto simp: map_of_configureRules configOf_def)
  have own_rule: "distinct (map name rules) \<longrightarrow>
      (\<forall>r \<in> set rules. name r \<noteq> ''__proto__'' \<longrightarrow>
         (truthy (defaultConfig r) \<longrightarrow>
            map_of (configureRules rules) (name r) = Some (defaultConfig r)) \<and>
         (defaultConfig r = JNull \<or> defaultConfig r = JUndefined \<longrightarrow>
            map_of (configureRules rules) (name r) = Some (JStr ''error'')))"
  proof (intro impI ballI)
    fix r
    assume "distinct (map name rules)" and "r \<in> set rules" and "name r \<noteq> ''__proto__''"
    with find_last_distinct[of rules r] show
      "(truthy (defaultConfig r) \<longrightarrow>
          map_of (configureRules rules) (name r) = Some (defaultConfig r)) \<and>
       (defaultConfig r = JNull \<or> defaultConfig r = JUndefined \<longrightarrow>
          map_of (configureRules rules) (name r) = Some (JStr ''error''))"
      by (auto simp: map_of_configureRules configOf_def)
  qed
  from empty no_call last_rule own_rule show ?thesis by blast
qed

theorem configureRules_and_run_witness:
  "run example_parse example_context [] example_targets example_options = (Inr [], []) \<and>
   map_of (configureRules example_rules) ''no-undef'' = Some (JStr ''error'') \<and>
   map_of (configureRules example_rules) ''quotes'' =
     Some (JArr [JStr ''warn'', JStr ''double'']) \<and>
   map_of (configureRules example_rules) ''semi'' = None"
proof -
  note t0 = configureRules_and_run
              [of "[]" example_parse example_context example_targets example_options "''x''"]
  note t1 = configureRules_and_run
              [of example_rules example_parse example_context example_targets example_options
                  "''semi''"]
  have d: "distinct (map name example_rules)" by (simp add: example_rules_def)
  have r1: "\<lparr>name = ''no-undef'', defaultConfig = JNull\<rparr> \<in> set example_rules"
    and r2: "\<lparr>name = ''quotes'', defaultConfig = JArr [JStr ''warn'', JStr ''double'']\<rparr>
               \<in> set example_rules"
    by (simp_all add: example_rules_def)
  have f: "List.find (\<lambda>r. name r = ''semi'') (rev example_rules) = None"
    by (simp add: example_rules_def)
  have s: "''semi'' \<noteq> ''__proto__''" by simp
  from t0 have "run example_parse example_context [] example_targets example_options = (Inr [], [])"
    by blast
  moreover from t1 d r1 have
    "map_of (configureRules example_rules) ''no-undef'' = Some (JStr ''error'')"
    by fastforce
  moreover from t1 d r2 have
    "map_of (configureRules example_rules) ''quotes'' = Some (JArr [JStr ''warn'', JStr ''double''])"
    by fastforce
  moreover from t1 f s have "map_of (configureRules example_rules) ''semi'' = None"
    by blast
  ultimately show ?thesis by blast
qed

text \<open>
  C10 as stated fails: of two rules with the same name the first has a
  \<^verbatim>\<open>defaultConfig\<close>, and the name is configured at \<^verbatim>\<open>error\<close>, from the second.
\<close>

theorem configureRules_counterexample:
  "truthy (defaultConfig \<lparr>name = ''no-undef'', defaultConfig = JStr ''warn''\<rparr>) \<and>
   configureRules
     [\<lparr>name = ''no-undef'', defaultConfig = JStr ''warn''\<rparr>,
      \<lparr>name = ''no-undef'', defaultConfig = JNull\<rparr>] =
     [(''no-undef'', JStr ''error'')]"
  by (simp add: configureRules_def Object_set_def is_digit_def)

end
